theory Spec2Isabelle
  imports Complex_Main "HOL-Library.Log_Nat"
begin

section \<open>JavaScript values\<close>

text \<open>
  The orchestrator passes alerts, incidents and patches around as untyped objects
  (\<^verbatim>\<open>any\<close>). They are modelled as JSON-like values: an object is a finite map
  from property names to values, so that \<^verbatim>\<open>'k' in o\<close> is \<open>o k \<noteq> None\<close>, a property
  that is present with the value \<^verbatim>\<open>undefined\<close> is \<open>Some Undefined\<close>, the spread
  \<^verbatim>\<open>{...o}\<close> is \<open>o\<close> itself and \<^verbatim>\<open>Object.assign(t, a, b)\<close> is \<open>t ++ a ++ b\<close>.
  Numbers are integers here; the confidence of a hypothesis, the one fractional number
  the code computes with, lives in the typed part of the model below.
\<close>

datatype jsval =
    Undefined
  | Null
  | Bool bool
  | Num int
  | Str string
  | Arr "jsval list"
  | Obj "string \<Rightarrow> jsval option"

type_synonym obj = "string \<Rightarrow> jsval option"

datatype js_error = TypeError | Thrown string

text \<open>Property read \<^verbatim>\<open>o.k\<close> on an object: an absent property reads as \<^verbatim>\<open>undefined\<close>.\<close>

definition get :: "obj \<Rightarrow> string \<Rightarrow> jsval" where
  "get o' k = (case o' k of None \<Rightarrow> Undefined | Some v \<Rightarrow> v)"

text \<open>
  Optional chaining \<^verbatim>\<open>v?.k\<close>: \<^verbatim>\<open>undefined\<close> for a nullish \<open>v\<close>; the property for an
  object; \<^verbatim>\<open>undefined\<close> for the other values (no JSON value but an object carries a
  property of the names read here).
\<close>

fun opt_get :: "jsval \<Rightarrow> string \<Rightarrow> jsval" where
  "opt_get (Obj o') k = get o' k"
| "opt_get _ k = Undefined"

text \<open>\<^verbatim>\<open>typeof v === 'string'\<close>.\<close>

fun is_string :: "jsval \<Rightarrow> bool" where
  "is_string (Str s) = True"
| "is_string _ = False"

text \<open>Truthiness, as tested by \<^verbatim>\<open>if (v)\<close>, \<^verbatim>\<open>!v\<close> and \<^verbatim>\<open>a || b\<close>.\<close>

fun truthy :: "jsval \<Rightarrow> bool" where
  "truthy Undefined = False"
| "truthy Null = False"
| "truthy (Bool b) = b"
| "truthy (Num n) = (n \<noteq> 0)"
| "truthy (Str s) = (s \<noteq> [])"
| "truthy (Arr vs) = True"
| "truthy (Obj o') = True"

definition js_or :: "jsval \<Rightarrow> jsval \<Rightarrow> jsval" where
  "js_or a b = (if truthy a then a else b)"

text \<open>Nullish coalescing \<^verbatim>\<open>a ?? b\<close>.\<close>

definition js_coalesce :: "jsval \<Rightarrow> jsval \<Rightarrow> jsval" where
  "js_coalesce a b = (if a = Undefined \<or> a = Null then b else a)"

subsection \<open>Strings\<close>

fun starts_with :: "string \<Rightarrow> string \<Rightarrow> bool" where
  "starts_with s [] = True"
| "starts_with [] (c # cs) = False"
| "starts_with (x # xs) (c # cs) = (x = c \<and> starts_with xs cs)"

text \<open>\<^verbatim>\<open>String.prototype.includes\<close>: the argument occurs as a contiguous substring.\<close>

fun str_includes :: "string \<Rightarrow> string \<Rightarrow> bool" where
  "str_includes [] sub = (sub = [])"
| "str_includes (x # xs) sub = (starts_with (x # xs) sub \<or> str_includes xs sub)"

text \<open>
  \<^verbatim>\<open>String.prototype.toLowerCase\<close> on the ASCII letters; other bytes are unchanged
  (every literal the code searches for is ASCII).
\<close>

definition lower_char :: "char \<Rightarrow> char" where
  "lower_char c =
     (case map_of (zip ''ABCDEFGHIJKLMNOPQRSTUVWXYZ'' ''abcdefghijklmnopqrstuvwxyz'') c of
        Some l \<Rightarrow> l
      | None \<Rightarrow> c)"

definition toLowerCase :: "string \<Rightarrow> string" where
  "toLowerCase s = map lower_char s"

definition digit_char :: "nat \<Rightarrow> char" where
  "digit_char d = ''0123456789'' ! d"

fun show_nat :: "nat \<Rightarrow> string" where
  "show_nat n = (if n < 10 then [digit_char n] else show_nat (n div 10) @ [digit_char (n mod 10)])"

declare show_nat.simps [simp del]

definition show_int :: "int \<Rightarrow> string" where
  "show_int i = (if i < 0 then CHR ''-'' # show_nat (nat (- i)) else show_nat (nat i))"

fun join :: "string \<Rightarrow> string list \<Rightarrow> string" where
  "join sep [] = []"
| "join sep [s] = s"
| "join sep (s # t # ss) = s @ sep @ join sep (t # ss)"

text \<open>
  The string conversion a template literal \<^verbatim>\<open>`...${v}`\<close> applies. An array prints its
  elements joined by commas, with nullish elements printed empty. Two limits of the
  values it is meant for: a number is an integer below \<open>10\<^sup>2\<^sup>1\<close> in magnitude that a double
  holds exactly, which JavaScript prints in plain decimal digits (from \<open>10\<^sup>2\<^sup>1\<close> on it
  prints an exponent); an object has no property \<^verbatim>\<open>toString\<close> of its own, so that
  \<^verbatim>\<open>Object.prototype.toString\<close> prints it as \<^verbatim>\<open>[object Object]\<close> (with such a property,
  which in a value made of data is not a function, JavaScript throws a \<^verbatim>\<open>TypeError\<close>).
\<close>

primrec ToString :: "jsval \<Rightarrow> string" where
  "ToString Undefined = ''undefined''"
| "ToString Null = ''null''"
| "ToString (Bool b) = (if b then ''true'' else ''false'')"
| "ToString (Num n) = show_int n"
| "ToString (Str s) = s"
| "ToString (Arr vs) =
     join '','' (map (\<lambda>(v, s). if v = Undefined \<or> v = Null then [] else s)
                     (zip vs (map ToString vs)))"
| "ToString (Obj o') = ''[object Object]''"

section \<open>Triage\<close>

text \<open>
  \<^verbatim>\<open>TriageAgent\<close> (agents/triage-agent.ts). The lookups it makes (metrics, recent
  commits, runbook search) are collaborator responses; \<^verbatim>\<open>generateHypothesis\<close> and
  \<^verbatim>\<open>generateSuggestedActions\<close> are functions of the alert and of those responses.
  The records follow the interfaces of types/index.ts.

  A confidence is a JavaScript number, a double. A rational stands for the double
  nearest to it: a literal is kept as it is written, and the sum of two numbers is kept
  as the exact value of the double that the addition yields, so that
  \<^verbatim>\<open>0.7 + 0.1\<close> is \<^verbatim>\<open>0.7999999999999999\<close> and not \<^verbatim>\<open>0.8\<close>.
\<close>

definition pow2 :: "int \<Rightarrow> rat" where
  "pow2 e = (if 0 \<le> e then 2 ^ nat e else 1 / 2 ^ nat (- e))"

text \<open>Rounding to the nearest integer, a tie to the even one.\<close>

definition round_half_even :: "rat \<Rightarrow> int" where
  "round_half_even r =
     (let f = \<lfloor>r\<rfloor>; d = r - of_int f
      in if d < 1 / 2 then f else if 1 / 2 < d then f + 1 else if even f then f else f + 1)"

text \<open>
  The double nearest to a rational, for the magnitudes of the normal range (from
  \<open>2\<^sup>-\<^sup>1\<^sup>0\<^sup>2\<^sup>2\<close> up to \<open>2\<^sup>1\<^sup>0\<^sup>2\<^sup>4\<close>) and for 0: with \<open>2\<^sup>e \<le> |x| < 2\<^sup>e\<^sup>+\<^sup>1\<close>, the
  multiple of \<open>2\<^sup>e\<^sup>-\<^sup>5\<^sup>2\<close> nearest to \<open>x\<close>, a tie going to the even multiple. The
  exponent \<open>e\<close> is found from the numbers of binary digits (\<open>bitlen\<close>) of the numerator
  and of the denominator.
\<close>

definition to_double :: "rat \<Rightarrow> rat" where
  "to_double x =
     (if x = 0 then 0
      else
        (let a = \<bar>x\<bar>;
             k = bitlen (fst (quotient_of a)) - bitlen (snd (quotient_of a));
             e = (if pow2 k \<le> a then k else k - 1);
             m = round_half_even (a * pow2 (52 - e))
         in sgn x * of_int m * pow2 (e - 52)))"

text \<open>The addition of two numbers: the double nearest to the sum of the two doubles.\<close>

definition js_add :: "rat \<Rightarrow> rat \<Rightarrow> rat" where
  "js_add a b = to_double (to_double a + to_double b)"

record GitCommit =
  sha :: string
  message :: string
  author :: string
  date :: string
  commit_url :: string

record Runbook =
  rb_id :: string
  title :: string
  rb_keywords :: "string list"
  steps :: "string list"

text \<open>\<open>suggestedFix\<close> is \<open>None\<close> when it holds \<^verbatim>\<open>undefined\<close> (the first step of a
  runbook without steps).\<close>

record Hypothesis =
  primaryCause :: string
  confidence :: rat
  evidence :: "string list"
  suggestedFix :: "string option"

record triage_context =
  changes :: "GitCommit list"
  runbooks :: "Runbook list"

record SuggestedAction =
  action_type :: string
  description :: "string option"
  automated :: bool
  runbookId :: "string option"

text \<open>
  \<^verbatim>\<open>v?.includes(sub)\<close> as a condition: a nullish \<open>v\<close> short-circuits to
  \<^verbatim>\<open>undefined\<close>; a string is searched; an array is searched for the element; any other
  value has no \<^verbatim>\<open>includes\<close> method and the call throws.
\<close>

fun opt_includes :: "jsval \<Rightarrow> string \<Rightarrow> js_error + bool" where
  "opt_includes Undefined sub = Inr False"
| "opt_includes Null sub = Inr False"
| "opt_includes (Str s) sub = Inr (str_includes s sub)"
| "opt_includes (Arr vs) sub = Inr (Str sub \<in> set vs)"
| "opt_includes _ sub = Inl TypeError"

text \<open>The part of \<^verbatim>\<open>generateHypothesis\<close> after the classification of the alert:
  correlation with recent changes, then with the runbooks found.\<close>

definition correlate :: "triage_context \<Rightarrow> Hypothesis \<Rightarrow> Hypothesis" where
  "correlate context h =
     (let h1 = (case changes context of
                  [] \<Rightarrow> h
                | recentChange # _ \<Rightarrow>
                    h\<lparr>evidence := evidence h @
                         [''Recent commit: \"'' @ message recentChange @ ''\" by '' @ author recentChange],
                      confidence := min (js_add (confidence h) (1 / 10)) 1\<rparr>)
      in case runbooks context of
           [] \<Rightarrow> h1
         | rb # _ \<Rightarrow>
             h1\<lparr>evidence := evidence h1 @
                   [''Found '' @ show_nat (length (runbooks context)) @ '' relevant runbook(s)''],
                suggestedFix := (case steps rb of [] \<Rightarrow> None | st # _ \<Rightarrow> Some st),
                confidence := min (js_add (confidence h1) (1 / 10)) 1\<rparr>)"

definition generateHypothesis :: "obj \<Rightarrow> triage_context \<Rightarrow> js_error + Hypothesis" where
  "generateHypothesis alert context =
     (let hypothesis = \<lparr>primaryCause = ''Unknown'', confidence = 0, evidence = [],
                         suggestedFix = Some []\<rparr>;
          alertname = opt_get (get alert ''labels'') ''alertname''
      in case opt_includes alertname ''Memory'' of
           Inl e \<Rightarrow> Inl e
         | Inr True \<Rightarrow>
             Inr (correlate context
               (hypothesis\<lparr>primaryCause := ''Memory exhaustion or leak'', confidence := 8 / 10,
                  evidence := [''Alert name contains \"Memory\"''],
                  suggestedFix := Some ''Restart affected service or scale horizontally''\<rparr>))
         | Inr False \<Rightarrow>
            (case opt_includes alertname ''CPU'' of
               Inl e \<Rightarrow> Inl e
             | Inr True \<Rightarrow>
                 Inr (correlate context
                   (hypothesis\<lparr>primaryCause := ''High CPU utilization'', confidence := 75 / 100,
                      evidence := [''Alert name contains \"CPU\"''],
                      suggestedFix := Some ''Optimize CPU-intensive operations or scale up''\<rparr>))
             | Inr False \<Rightarrow>
                 if get alert ''severity'' = Str ''critical''
                 then Inr (correlate context
                   (hypothesis\<lparr>primaryCause := ''Service outage or critical failure'',
                      confidence := 7 / 10,
                      evidence := [''Alert severity is critical''],
                      suggestedFix := Some ''Immediate investigation and potential rollback''\<rparr>))
                 else Inr (correlate context hypothesis)))"

definition generateSuggestedActions :: "Hypothesis \<Rightarrow> Runbook list \<Rightarrow> SuggestedAction list" where
  "generateSuggestedActions hypothesis rbs =
     [\<lparr>action_type = ''create_ticket'', description = Some ''Create Jira ticket for tracking'',
       automated = True, runbookId = None\<rparr>]
     @ (case rbs of
          [] \<Rightarrow> []
        | rb # _ \<Rightarrow>
            [\<lparr>action_type = ''follow_runbook'',
              description = Some (''Follow runbook: '' @ title rb),
              automated = False, runbookId = Some (rb_id rb)\<rparr>])
     @ (if confidence hypothesis > 7 / 10
        then [\<lparr>action_type = ''apply_fix'', description = suggestedFix hypothesis,
               automated = (confidence hypothesis > 8 / 10), runbookId = None\<rparr>]
        else [])
     @ (if confidence hypothesis < 5 / 10
        then [\<lparr>action_type = ''escalate'', description = Some ''Escalate to on-call engineer'',
               automated = True, runbookId = None\<rparr>]
        else [])"

section \<open>The store and the incident manager\<close>

text \<open>
  \<^verbatim>\<open>DatabaseService\<close> with \<^verbatim>\<open>pool = null\<close>, that is the in-memory backend the service
  uses when no database is configured or reachable, and \<^verbatim>\<open>IncidentManager\<close> on top
  of it (services/database.ts, services/incident-manager.ts). The PostgreSQL branch of
  each method is a query sent to an external server and is not modelled.

  What the code reads from its runtime is a parameter of the model: the identifiers
  \<^verbatim>\<open>uuidv4()\<close> returns, the readings of the clock (\<^verbatim>\<open>new Date()\<close>, in milliseconds), the
  rendering \<^verbatim>\<open>toISOString\<close> and \<^verbatim>\<open>JSON.parse\<close>. The state counts the readings made so
  far, so that successive readings may differ.
\<close>

record runtime =
  uuidv4 :: "nat \<Rightarrow> string"
  Date_now :: "nat \<Rightarrow> nat"
  toISOString :: "nat \<Rightarrow> string"
  JSON_parse :: "string \<Rightarrow> js_error + jsval"

text \<open>
  Timeline events and relations are created by the store only, with the fields below.
  Their \<open>created_at\<close> is kept as the instant read from the clock: the code stores its
  ISO rendering and reads it back with \<^verbatim>\<open>new Date(s).getTime()\<close> when it sorts.
\<close>

record TimelineEvent =
  ev_id :: nat
  incident_id :: string
  event_type :: string
  event_data :: jsval
  ev_created_at :: nat

record MemoryRelation =
  rel_id :: nat
  entity_type :: string
  entity_id :: string
  related_type :: string
  related_id :: jsval
  relationship :: string
  metadata :: jsval
  rel_created_at :: nat

text \<open>The arguments of \<^verbatim>\<open>addMemoryRelation\<close>: a relation without \<open>id\<close> and \<open>created_at\<close>.\<close>

record relation_data =
  d_entity_type :: string
  d_entity_id :: string
  d_related_type :: string
  d_related_id :: jsval
  d_relationship :: string
  d_metadata :: jsval

record store =
  incidents :: "jsval \<Rightarrow> obj option"
  timeline :: "TimelineEvent list"
  relations :: "MemoryRelation list"
  clock_reads :: nat
  uuid_reads :: nat

definition empty_store :: store where
  "empty_store = \<lparr>incidents = Map.empty, timeline = [], relations = [],
                   clock_reads = 0, uuid_reads = 0\<rparr>"

text \<open>\<^verbatim>\<open>new Date()\<close>: the next reading of the clock.\<close>

definition new_Date :: "runtime \<Rightarrow> store \<Rightarrow> nat \<times> store" where
  "new_Date rt s = (Date_now rt (clock_reads s), s\<lparr>clock_reads := Suc (clock_reads s)\<rparr>)"

definition new_uuid :: "runtime \<Rightarrow> store \<Rightarrow> string \<times> store" where
  "new_uuid rt s = (uuidv4 rt (uuid_reads s), s\<lparr>uuid_reads := Suc (uuid_reads s)\<rparr>)"

subsection \<open>DatabaseService, in-memory branch\<close>

definition DatabaseService_createIncident :: "runtime \<Rightarrow> obj \<Rightarrow> store \<Rightarrow> obj \<times> store" where
  "DatabaseService_createIncident rt data s =
     (let (t1, s1) = new_Date rt s;
          (t2, s2) = new_Date rt s1;
          incident = data(''status'' \<mapsto> js_or (get data ''status'') (Str ''open''),
                          ''created_at'' \<mapsto> Str (toISOString rt t1),
                          ''updated_at'' \<mapsto> Str (toISOString rt t2))
      in (incident, s2\<lparr>incidents := (incidents s2)(get data ''id'' \<mapsto> incident)\<rparr>))"

definition DatabaseService_updateIncident ::
  "runtime \<Rightarrow> string \<Rightarrow> obj \<Rightarrow> store \<Rightarrow> obj option \<times> store" where
  "DatabaseService_updateIncident rt id' updates s =
     (let normalized = updates;
          normalized =
            (if normalized ''triageResult'' \<noteq> None \<and> normalized ''triage_result'' = None
             then (normalized(''triage_result'' \<mapsto> get normalized ''triageResult''))
                    (''triageResult'' := None)
             else normalized);
          normalized =
            (if normalized ''fixResult'' \<noteq> None \<and> normalized ''fix_result'' = None
             then (normalized(''fix_result'' \<mapsto> get normalized ''fixResult''))
                    (''fixResult'' := None)
             else normalized)
      in case incidents s (Str id') of
           None \<Rightarrow> (None, s)
         | Some incident \<Rightarrow>
            (let toAssign = normalized;
                 toAssign =
                   (if toAssign ''triage_result'' \<noteq> None
                    then toAssign(''triageResult'' \<mapsto> get toAssign ''triage_result'')
                    else toAssign);
                 toAssign =
                   (if toAssign ''fix_result'' \<noteq> None
                    then toAssign(''fixResult'' \<mapsto> get toAssign ''fix_result'')
                    else toAssign);
                 (t, s1) = new_Date rt s;
                 incident' = incident ++ toAssign ++ [''updated_at'' \<mapsto> Str (toISOString rt t)]
             in (Some incident', s1\<lparr>incidents := (incidents s1)(Str id' \<mapsto> incident')\<rparr>)))"

definition DatabaseService_getIncident :: "string \<Rightarrow> store \<Rightarrow> obj option" where
  "DatabaseService_getIncident id' s = incidents s (Str id')"

definition addTimelineEvent ::
  "runtime \<Rightarrow> string \<Rightarrow> string \<Rightarrow> jsval \<Rightarrow> store \<Rightarrow> TimelineEvent \<times> store" where
  "addTimelineEvent rt incidentId eventType eventData s =
     (let (t, s1) = new_Date rt s;
          event = \<lparr>ev_id = length (timeline s1) + 1, incident_id = incidentId,
                   event_type = eventType, event_data = eventData, ev_created_at = t\<rparr>
      in (event, s1\<lparr>timeline := timeline s1 @ [event]\<rparr>))"

definition addMemoryRelation :: "runtime \<Rightarrow> relation_data \<Rightarrow> store \<Rightarrow> MemoryRelation \<times> store" where
  "addMemoryRelation rt data s =
     (let (t, s1) = new_Date rt s;
          relation = \<lparr>rel_id = length (relations s1) + 1,
                      entity_type = d_entity_type data, entity_id = d_entity_id data,
                      related_type = d_related_type data, related_id = d_related_id data,
                      relationship = d_relationship data, metadata = d_metadata data,
                      rel_created_at = t\<rparr>
      in (relation, s1\<lparr>relations := relations s1 @ [relation]\<rparr>))"

text \<open>
  \<^verbatim>\<open>Array.prototype.sort\<close> with a comparator: a stable sort, here by insertion. An element
  goes before the first element that the comparator does not put before it.
\<close>

fun insert_by :: "('a \<Rightarrow> 'a \<Rightarrow> int) \<Rightarrow> 'a \<Rightarrow> 'a list \<Rightarrow> 'a list" where
  "insert_by cmp x [] = [x]"
| "insert_by cmp x (y # ys) = (if cmp x y \<le> 0 then x # y # ys else y # insert_by cmp x ys)"

definition sort_by :: "('a \<Rightarrow> 'a \<Rightarrow> int) \<Rightarrow> 'a list \<Rightarrow> 'a list" where
  "sort_by cmp xs = foldr (insert_by cmp) xs []"

definition getRelations :: "string \<Rightarrow> string \<Rightarrow> store \<Rightarrow> MemoryRelation list" where
  "getRelations entityType entityId s =
     sort_by (\<lambda>a b. int (rel_created_at b) - int (rel_created_at a))
       (filter (\<lambda>r. (entity_type r = entityType \<and> entity_id r = entityId) \<or>
                     (related_type r = entityType \<and> related_id r = Str entityId))
          (relations s))"

definition getTimeline :: "string \<Rightarrow> store \<Rightarrow> TimelineEvent list" where
  "getTimeline incidentId s =
     sort_by (\<lambda>a b. int (ev_created_at a) - int (ev_created_at b))
       (filter (\<lambda>e. incident_id e = incidentId) (timeline s))"

subsection \<open>IncidentManager\<close>

definition IncidentManager_createIncident :: "runtime \<Rightarrow> obj \<Rightarrow> store \<Rightarrow> obj \<times> store" where
  "IncidentManager_createIncident rt alert s =
     (let (u, s0) = new_uuid rt s;
          incidentId = ''inc-'' @ u;
          incident =
            [''id'' \<mapsto> Str incidentId,
             ''alert_id'' \<mapsto> js_or (get alert ''id'') (get alert ''fingerprint''),
             ''summary'' \<mapsto>
                js_or (js_or (get alert ''summary'') (opt_get (get alert ''labels'') ''alertname''))
                      (Str ''Unknown Alert''),
             ''description'' \<mapsto> js_or (get alert ''description'') (Str []),
             ''severity'' \<mapsto>
                js_or (js_or (get alert ''severity'') (opt_get (get alert ''labels'') ''severity''))
                      (Str ''warning''),
             ''status'' \<mapsto> Str ''open'',
             ''labels'' \<mapsto> js_or (get alert ''labels'') (Obj Map.empty),
             ''annotations'' \<mapsto> js_or (get alert ''annotations'') (Obj Map.empty)];
          (dbIncident, s1) = DatabaseService_createIncident rt incident s0;
          (ev, s2) = addTimelineEvent rt incidentId ''incident_created''
                       (Obj [''alert'' \<mapsto> Obj alert, ''source'' \<mapsto> Str ''prometheus'']) s1;
          (t, s3) = new_Date rt s2;
          (rel, s4) = addMemoryRelation rt
                       \<lparr>d_entity_type = ''incident'', d_entity_id = incidentId,
                        d_related_type = ''alert'',
                        d_related_id = js_or (get alert ''id'') (get alert ''fingerprint''),
                        d_relationship = ''triggered_by'',
                        d_metadata = Obj [''timestamp'' \<mapsto> Str (toISOString rt t)]\<rparr> s3
      in (dbIncident, s4))"

text \<open>
  \<^verbatim>\<open>updateIncident\<close> returns what the store returned (\<open>None\<close> is \<^verbatim>\<open>null\<close>), or throws:
  reading \<^verbatim>\<open>incident.status\<close> for the payload of the status event is a
  \<^verbatim>\<open>TypeError\<close> when the store returned \<^verbatim>\<open>null\<close>.
\<close>

definition IncidentManager_updateIncident ::
  "runtime \<Rightarrow> string \<Rightarrow> obj \<Rightarrow> store \<Rightarrow> (js_error + obj option) \<times> store" where
  "IncidentManager_updateIncident rt id' updates s =
     (let (incident, s1) = DatabaseService_updateIncident rt id' updates s
      in case (if truthy (get updates ''status'')
               then (case incident of
                       None \<Rightarrow> Inl TypeError
                     | Some inc \<Rightarrow>
                        (let (t, sa) = new_Date rt s1
                         in Inr (snd (addTimelineEvent rt id'
                              (''status_changed_to_'' @ ToString (get updates ''status''))
                              (Obj [''previousStatus'' \<mapsto> get inc ''status'',
                                    ''newStatus'' \<mapsto> get updates ''status'',
                                    ''timestamp'' \<mapsto> Str (toISOString rt t)]) sa))))
               else Inr s1) of
           Inl e \<Rightarrow> (Inl e, s1)
         | Inr s2 \<Rightarrow>
            (let s3 = (if truthy (get updates ''triageResult'')
                       then snd (addTimelineEvent rt id' ''triaged''
                              (Obj [''hypothesis'' \<mapsto> opt_get (get updates ''triageResult'') ''hypothesis'',
                                    ''suggestedActions'' \<mapsto>
                                       opt_get (get updates ''triageResult'') ''suggestedActions'']) s2)
                       else s2);
                 s4 = (if truthy (get updates ''fixResult'')
                       then snd (addTimelineEvent rt id' ''fix_applied''
                              (Obj [''pullRequest'' \<mapsto> opt_get (get updates ''fixResult'') ''pullRequest'',
                                    ''appliedFixes'' \<mapsto> opt_get (get updates ''fixResult'') ''appliedFixes'',
                                    ''success'' \<mapsto> opt_get (get updates ''fixResult'') ''success'']) s3)
                       else s3)
             in (Inr incident, s4)))"

text \<open>
  The four assignments \<^verbatim>\<open>incident.k = typeof incident.k === 'string' ?
  JSON.parse(incident.k) : incident.k\<close> at the head of \<^verbatim>\<open>getIncident\<close>, in order; the
  first \<^verbatim>\<open>JSON.parse\<close> that throws ends them, the assignments before it made.
\<close>

fun parse_json_fields :: "runtime \<Rightarrow> string list \<Rightarrow> obj \<Rightarrow> obj \<times> js_error option" where
  "parse_json_fields rt [] incident = (incident, None)"
| "parse_json_fields rt (k # ks) incident =
     (case get incident k of
        Str str \<Rightarrow>
          (case JSON_parse rt str of
             Inl e \<Rightarrow> (incident, Some e)
           | Inr v \<Rightarrow> parse_json_fields rt ks (incident(k \<mapsto> v)))
      | v \<Rightarrow> parse_json_fields rt ks (incident(k \<mapsto> v)))"

text \<open>The in-memory store hands out the stored object itself, so the assignments of
  \<^verbatim>\<open>getIncident\<close> are made to the stored incident.\<close>

definition IncidentManager_getIncident ::
  "runtime \<Rightarrow> string \<Rightarrow> store \<Rightarrow> (js_error + obj option) \<times> store" where
  "IncidentManager_getIncident rt id' s =
     (case DatabaseService_getIncident id' s of
        None \<Rightarrow> (Inr None, s)
      | Some incident \<Rightarrow>
         (case parse_json_fields rt
                 [''labels'', ''annotations'', ''triage_result'', ''fix_result''] incident of
            (inc1, Some e) \<Rightarrow> (Inl e, s\<lparr>incidents := (incidents s)(Str id' \<mapsto> inc1)\<rparr>)
          | (inc1, None) \<Rightarrow>
             (let inc2 = (if get inc1 ''triage_result'' = Undefined
                             \<and> get inc1 ''triageResult'' \<noteq> Undefined
                          then inc1(''triage_result'' \<mapsto> get inc1 ''triageResult'') else inc1);
                  inc3 = (if get inc2 ''fix_result'' = Undefined
                             \<and> get inc2 ''fixResult'' \<noteq> Undefined
                          then inc2(''fix_result'' \<mapsto> get inc2 ''fixResult'') else inc2);
                  inc4 = inc3(''triageResult'' \<mapsto>
                           js_coalesce (get inc3 ''triage_result'') (get inc3 ''triageResult''));
                  inc5 = inc4(''fixResult'' \<mapsto>
                           js_coalesce (get inc4 ''fix_result'') (get inc4 ''fixResult''))
              in (Inr (Some inc5), s\<lparr>incidents := (incidents s)(Str id' \<mapsto> inc5)\<rparr>))))"

definition linkIncidents :: "runtime \<Rightarrow> string \<Rightarrow> string \<Rightarrow> string \<Rightarrow> store \<Rightarrow> store" where
  "linkIncidents rt incidentId1 incidentId2 relationship' s =
     (let (t, s1) = new_Date rt s
      in snd (addMemoryRelation rt
           \<lparr>d_entity_type = ''incident'', d_entity_id = incidentId1,
            d_related_type = ''incident'', d_related_id = Str incidentId2,
            d_relationship = relationship',
            d_metadata = Obj [''timestamp'' \<mapsto> Str (toISOString rt t)]\<rparr> s1))"

text \<open>
  What the amended claim C9 says of the fields \<^verbatim>\<open>getIncident\<close> hands out, written
  after the words of the claim: a string that \<^verbatim>\<open>JSON.parse\<close> rejects makes the reading
  throw the error of \<^verbatim>\<open>JSON.parse\<close>, the first such field deciding; a string that it
  accepts is handed out as the value it denotes, and any other value as it is.
\<close>

definition parse_error :: "runtime \<Rightarrow> jsval \<Rightarrow> js_error option" where
  "parse_error rt v =
     (case v of
        Str str \<Rightarrow> (case JSON_parse rt str of Inl e \<Rightarrow> Some e | Inr x \<Rightarrow> None)
      | _ \<Rightarrow> None)"

fun first_parse_error :: "runtime \<Rightarrow> jsval list \<Rightarrow> js_error option" where
  "first_parse_error rt [] = None"
| "first_parse_error rt (v # vs) =
     (case parse_error rt v of Some e \<Rightarrow> Some e | None \<Rightarrow> first_parse_error rt vs)"

definition read_value :: "runtime \<Rightarrow> jsval \<Rightarrow> jsval" where
  "read_value rt v =
     (case v of
        Str str \<Rightarrow> (case JSON_parse rt str of Inl e \<Rightarrow> v | Inr x \<Rightarrow> x)
      | _ \<Rightarrow> v)"

text \<open>A field of the incident a call returned, when it returned one.\<close>

definition returned_field :: "js_error + obj option \<Rightarrow> string \<Rightarrow> jsval option" where
  "returned_field result k =
     (case result of
        Inr (Some incident) \<Rightarrow> Some (get incident k)
      | _ \<Rightarrow> None)"

text \<open>
  A runtime for concrete runs: identifiers \<^verbatim>\<open>uuid-0\<close>, \<^verbatim>\<open>uuid-1\<close>, ...; a clock that
  starts at the epoch and advances by one millisecond at each reading, rendered as
  \<^verbatim>\<open>toISOString\<close> renders the instants of the first second; a \<^verbatim>\<open>JSON.parse\<close> for the
  two texts the runs below hand to it, \<^verbatim>\<open>{}\<close>, the empty object, and \<^verbatim>\<open>oops\<close>, a
  \<^verbatim>\<open>SyntaxError\<close>.
\<close>

definition test_runtime :: runtime where
  "test_runtime =
     \<lparr>uuidv4 = (\<lambda>n. ''uuid-'' @ show_nat n),
      Date_now = (\<lambda>n. n),
      toISOString = (\<lambda>t. ''1970-01-01T00:00:00.'' @ replicate (3 - length (show_nat t)) CHR ''0''
                          @ show_nat t @ ''Z''),
      JSON_parse = (\<lambda>s. if s = ''{}'' then Inr (Obj Map.empty) else Inl (Thrown ''SyntaxError''))\<rparr>"

text \<open>The types of the timeline events, in the order of the timeline, and the
  \<^verbatim>\<open>previousStatus\<close> that the payload of the last event carries.\<close>

definition event_types :: "store \<Rightarrow> string list" where
  "event_types s = map event_type (timeline s)"

definition last_previousStatus :: "store \<Rightarrow> jsval" where
  "last_previousStatus s = opt_get (event_data (last (timeline s))) ''previousStatus''"

text \<open>The status a stored incident holds.\<close>

definition incident_status :: "string \<Rightarrow> store \<Rightarrow> jsval option" where
  "incident_status id' s = map_option (\<lambda>incident. get incident ''status'') (incidents s (Str id'))"

text \<open>
  The alert of the specification's scenario, and the stores of a run that creates its
  incident (which gets the identifier \<^verbatim>\<open>inc-uuid-0\<close>) and then resolves it.
\<close>

definition alert_fp1 :: obj where
  "alert_fp1 =
     [''fingerprint'' \<mapsto> Str ''fp-1'',
      ''labels'' \<mapsto> Obj [''alertname'' \<mapsto> Str ''HighMemoryUsage'', ''severity'' \<mapsto> Str ''critical''],
      ''annotations'' \<mapsto> Obj [''summary'' \<mapsto> Str ''Memory usage at 95%''],
      ''startsAt'' \<mapsto> Str ''2024-01-01T00:00:00.000Z'',
      ''status'' \<mapsto> Str ''firing'']"

definition store_created :: store where
  "store_created = snd (IncidentManager_createIncident test_runtime alert_fp1 empty_store)"

definition store_resolved :: store where
  "store_resolved =
     snd (IncidentManager_updateIncident test_runtime ''inc-uuid-0''
            [''status'' \<mapsto> Str ''resolved''] store_created)"

text \<open>
  Two alerts whose labels are a string, as a webhook body may carry them, and the stores
  after the creation of their incidents.
\<close>

definition alert_labels_oops :: obj where
  "alert_labels_oops = [''fingerprint'' \<mapsto> Str ''fp-2'', ''labels'' \<mapsto> Str ''oops'']"

definition alert_labels_braces :: obj where
  "alert_labels_braces = [''fingerprint'' \<mapsto> Str ''fp-3'', ''labels'' \<mapsto> Str ''{}'']"

definition store_labels_oops :: store where
  "store_labels_oops =
     snd (IncidentManager_createIncident test_runtime alert_labels_oops empty_store)"

definition store_labels_braces :: store where
  "store_labels_braces =
     snd (IncidentManager_createIncident test_runtime alert_labels_braces empty_store)"

text \<open>A field of a stored incident.\<close>

definition stored_field :: "string \<Rightarrow> string \<Rightarrow> store \<Rightarrow> jsval option" where
  "stored_field id' k s = map_option (\<lambda>incident. get incident k) (incidents s (Str id'))"


section \<open>Remediation\<close>

text \<open>
  \<^verbatim>\<open>FixerAgent.applyFix\<close> and the methods it calls. A triage result is typed after the
  interface \<^verbatim>\<open>TriageResult\<close>; \<open>tr_labels\<close> is its \<^verbatim>\<open>labels\<close> property, which
  \<^verbatim>\<open>applyFix\<close> reads and \<^verbatim>\<open>triageAlert\<close> never sets (\<open>Undefined\<close> then). The outcomes
  pushed to \<^verbatim>\<open>appliedFixes\<close> are object literals of differing shapes and are kept as
  objects.

  The collaborators answer per call: \<open>github i\<close> is what the requests of
  \<^verbatim>\<open>createPullRequest\<close> yield while the \<open>i\<close>-th approved action is handled, the pull
  request GitHub reports or the error thrown; \<open>jira i\<close> is the outcome of
  \<^verbatim>\<open>createJiraTicket\<close> there; \<open>prometheus_alerts\<close> is the list of alerts the verification
  request returns, or its failure; \<open>fix_now i\<close> is \<^verbatim>\<open>Date.now()\<close>.
\<close>

record TriageResult =
  alertId :: string
  tr_summary :: string
  tr_severity :: string
  tr_labels :: jsval
  hypothesis :: Hypothesis
  suggestedActions :: "SuggestedAction list"
  tr_runbooks :: "Runbook list"

record PullRequest =
  pr_url :: string
  pr_number :: int
  pr_state :: string
  pr_branch :: string

text \<open>What GitHub reports for a created pull request
  (\<^verbatim>\<open>html_url\<close>, \<^verbatim>\<open>number\<close>, \<^verbatim>\<open>state\<close>).\<close>

record github_pull =
  html_url :: string
  gh_number :: int
  gh_state :: string

datatype jira_response = NotConfigured | IssueCreated string | RequestFailed

record collaborators =
  github :: "nat \<Rightarrow> js_error + github_pull"
  jira :: "nat \<Rightarrow> jira_response"
  jiraDomain :: string
  prometheus_alerts :: "js_error + obj list"
  fix_now :: "nat \<Rightarrow> nat"

text \<open>A file of a generated patch; its content, a fixed text sent to GitHub, is left out.\<close>

record PatchFile =
  file_path :: string
  file_action :: string

record pr_params =
  pr_title :: string
  branch :: string
  files :: "PatchFile list"

record FixResult =
  fr_alertId :: string
  appliedFixes :: "obj list"
  pullRequest :: "PullRequest option"
  success :: bool
  verificationStatus :: string

text \<open>\<^verbatim>\<open>generatePatch\<close> returns the files of the patch; \<^verbatim>\<open>suggestedFix.toLowerCase()\<close>
  throws when the suggested fix is \<^verbatim>\<open>undefined\<close>.\<close>

definition generatePatch :: "string option \<Rightarrow> js_error + PatchFile list" where
  "generatePatch suggested =
     (case suggested of
        None \<Rightarrow> Inl TypeError
      | Some fix \<Rightarrow>
          Inr (if str_includes (toLowerCase fix) ''memory''
               then [\<lparr>file_path = ''k8s/deployment.yaml'', file_action = ''update''\<rparr>]
               else if str_includes (toLowerCase fix) ''scale''
               then [\<lparr>file_path = ''k8s/deployment.yaml'', file_action = ''update''\<rparr>]
               else if str_includes (toLowerCase fix) ''timeout''
               then [\<lparr>file_path = ''config/app.yaml'', file_action = ''update''\<rparr>]
               else []))"

text \<open>\<^verbatim>\<open>createPullRequest\<close> logs an error of its requests and throws it again.\<close>

definition createPullRequest :: "collaborators \<Rightarrow> nat \<Rightarrow> pr_params \<Rightarrow> js_error + PullRequest" where
  "createPullRequest env i params =
     (case github env i of
        Inl e \<Rightarrow> Inl e
      | Inr created \<Rightarrow>
          Inr \<lparr>pr_url = html_url created, pr_number = gh_number created,
               pr_state = gh_state created, pr_branch = branch params\<rparr>)"

text \<open>\<^verbatim>\<open>createJiraTicket\<close> catches the failure of its request: it returns in every case.\<close>

definition createJiraTicket :: "collaborators \<Rightarrow> nat \<Rightarrow> obj" where
  "createJiraTicket env i =
     (case jira env i of
        NotConfigured \<Rightarrow>
          [''status'' \<mapsto> Str ''skipped'', ''key'' \<mapsto> Str ''N/A'', ''url'' \<mapsto> Str ''N/A'',
           ''message'' \<mapsto> Str ''Jira credentials not configured'']
      | IssueCreated key \<Rightarrow>
          [''status'' \<mapsto> Str ''created'', ''key'' \<mapsto> Str key,
           ''url'' \<mapsto> Str (''https://'' @ jiraDomain env @ ''/browse/'' @ key)]
      | RequestFailed \<Rightarrow>
          [''status'' \<mapsto> Str ''failed'', ''key'' \<mapsto> Str ''N/A'', ''url'' \<mapsto> Str ''N/A''])"

definition verifyFix :: "collaborators \<Rightarrow> string \<Rightarrow> string" where
  "verifyFix env alertId' =
     (case prometheus_alerts env of
        Inl e \<Rightarrow> ''unknown''
      | Inr alerts \<Rightarrow>
          (let stillFiring =
                 list_ex (\<lambda>alert.
                    (get alert ''fingerprint'' = Str alertId'
                     \<or> ToString (opt_get (get alert ''labels'') ''alertname'') @ ''-''
                          @ ToString (get alert ''startsAt'') = alertId'
                     \<or> ToString (opt_get (get alert ''labels'') ''alertname'') @ ''-''
                          @ ToString (get alert ''activeAt'') = alertId')
                    \<and> get alert ''state'' = Str ''firing'') alerts
           in if stillFiring then ''still_firing'' else ''resolved''))"

text \<open>
  The body of the loop of \<^verbatim>\<open>applyFix\<close>, the \<^verbatim>\<open>switch\<close> on the type of the \<open>i\<close>-th
  action to apply: the results after the action, or the error thrown. An action of a
  type without a case leaves the results as they are.
\<close>

definition apply_action ::
  "collaborators \<Rightarrow> TriageResult \<Rightarrow> nat \<times> SuggestedAction \<Rightarrow> FixResult \<Rightarrow> js_error + FixResult" where
  "apply_action env triageResult step results =
     (let i = fst step; action = snd step;
          service = js_or (opt_get (tr_labels triageResult) ''service'') (Str ''unknown'')
      in if action_type action = ''apply_fix'' then
           (case generatePatch (description action) of
              Inl e \<Rightarrow> Inl e
            | Inr patch_files \<Rightarrow>
                if patch_files \<noteq> [] then
                  (case createPullRequest env i
                          \<lparr>pr_title = ''[AutoFix] '' @ tr_summary triageResult,
                           branch = ''autofix/'' @ alertId triageResult @ ''-''
                                      @ show_nat (fix_now env i),
                           files = patch_files\<rparr> of
                     Inl e \<Rightarrow> Inl e
                   | Inr pr \<Rightarrow>
                       Inr (results\<lparr>pullRequest := Some pr,
                              appliedFixes := appliedFixes results @
                                [[''type'' \<mapsto> Str ''pull_request'', ''url'' \<mapsto> Str (pr_url pr),
                                  ''status'' \<mapsto> Str ''created'']]\<rparr>))
                else Inr results)
         else if action_type action = ''rollback'' then
           Inr (results\<lparr>appliedFixes := appliedFixes results @
                  [[''type'' \<mapsto> Str ''rollback'', ''service'' \<mapsto> service,
                    ''version'' \<mapsto> Str ''previous'', ''status'' \<mapsto> Str ''rolled_back'']]\<rparr>)
         else if action_type action = ''restart_service'' then
           Inr (results\<lparr>appliedFixes := appliedFixes results @
                  [[''type'' \<mapsto> Str ''restart'', ''service'' \<mapsto> service,
                    ''status'' \<mapsto> Str ''restarted'']]\<rparr>)
         else if action_type action = ''scale_service'' then
           Inr (results\<lparr>appliedFixes := appliedFixes results @
                  [[''type'' \<mapsto> Str ''scale'', ''service'' \<mapsto> service,
                    ''replicas'' \<mapsto> Num (2 * 2), ''status'' \<mapsto> Str ''scaled'']]\<rparr>)
         else if action_type action = ''create_ticket'' then
           (let ticketResult = createJiraTicket env i
            in Inr (results\<lparr>appliedFixes := appliedFixes results @
                  [[''type'' \<mapsto> Str ''jira_ticket'', ''ticket'' \<mapsto> get ticketResult ''key'',
                    ''url'' \<mapsto> get ticketResult ''url'',
                    ''status'' \<mapsto> get ticketResult ''status'']]\<rparr>))
         else Inr results)"

text \<open>The loop: the actions are applied in order; the first error ends it, with the
  results reached so far.\<close>

fun apply_actions ::
  "collaborators \<Rightarrow> TriageResult \<Rightarrow> (nat \<times> SuggestedAction) list \<Rightarrow> FixResult
     \<Rightarrow> FixResult \<times> js_error option" where
  "apply_actions env triageResult [] results = (results, None)"
| "apply_actions env triageResult (step # rest) results =
     (case apply_action env triageResult step results of
        Inl e \<Rightarrow> (results, Some e)
      | Inr results' \<Rightarrow> apply_actions env triageResult rest results')"

text \<open>The actions to apply, each with its position in the batch.\<close>

definition actionsToApply :: "TriageResult \<Rightarrow> string list \<Rightarrow> (nat \<times> SuggestedAction) list" where
  "actionsToApply triageResult approvedActions =
     (let selected = filter (\<lambda>action. action_type action \<in> set approvedActions)
                       (suggestedActions triageResult)
      in zip [0..<length selected] selected)"

definition applyFix :: "collaborators \<Rightarrow> TriageResult \<Rightarrow> string list \<Rightarrow> FixResult" where
  "applyFix env triageResult approvedActions =
     (let results = \<lparr>fr_alertId = alertId triageResult, appliedFixes = [], pullRequest = None,
                      success = False, verificationStatus = ''pending''\<rparr>
      in case apply_actions env triageResult (actionsToApply triageResult approvedActions) results of
           (results', Some e) \<Rightarrow> results'\<lparr>success := False\<rparr>
         | (results', None) \<Rightarrow>
             if appliedFixes results' \<noteq> [] then
               (let status = verifyFix env (alertId triageResult)
                in results'\<lparr>verificationStatus := status, success := (status = ''resolved'')\<rparr>)
             else results')"

text \<open>The \<^verbatim>\<open>type\<close> of each outcome in \<^verbatim>\<open>appliedFixes\<close>, in order.\<close>

definition applied_types :: "FixResult \<Rightarrow> jsval list" where
  "applied_types results = map (\<lambda>fix. get fix ''type'') (appliedFixes results)"

text \<open>
  What the amended claim C6 says of one approved action, written after the words of the
  claim and not after the code; the theorem on \<^verbatim>\<open>applyFix\<close> compares the loop with
  these. A description names a patch when, in lower case, it contains \<^verbatim>\<open>memory\<close>,
  \<^verbatim>\<open>scale\<close> or \<^verbatim>\<open>timeout\<close>.
\<close>

definition names_patch :: "string \<Rightarrow> bool" where
  "names_patch fix =
     (str_includes (toLowerCase fix) ''memory'' \<or> str_includes (toLowerCase fix) ''scale''
      \<or> str_includes (toLowerCase fix) ''timeout'')"

text \<open>
  Only an apply-fix action can throw: it does when it has no description, and when its
  description names a patch and the creation of the pull request fails.
\<close>

definition expected_return :: "collaborators \<Rightarrow> nat \<times> SuggestedAction \<Rightarrow> bool" where
  "expected_return env step =
     (if action_type (snd step) = ''apply_fix'' then
        (case description (snd step) of
           None \<Rightarrow> False
         | Some fix \<Rightarrow>
             if names_patch fix
             then (case github env (fst step) of Inl e \<Rightarrow> False | Inr created \<Rightarrow> True)
             else True)
      else True)"

text \<open>
  The outcomes an action that returns appends: a \<^verbatim>\<open>pull_request\<close> outcome with the
  address of the pull request created, for an apply-fix action whose description names a
  patch, and nothing for one whose description names none; one outcome for a rollback, a
  restart and a scale-out, on the service of the triage result's labels or else
  \<^verbatim>\<open>unknown\<close>; one \<^verbatim>\<open>jira_ticket\<close> outcome for a ticket creation, with the status
  \<^verbatim>\<open>created\<close>, \<^verbatim>\<open>skipped\<close> (Jira not configured) or \<^verbatim>\<open>failed\<close>; nothing for an action
  of any other type.
\<close>

definition expected_outcomes :: "collaborators \<Rightarrow> TriageResult \<Rightarrow> nat \<times> SuggestedAction \<Rightarrow> obj list" where
  "expected_outcomes env triageResult step =
     (if action_type (snd step) = ''apply_fix'' then
        (case description (snd step) of
           None \<Rightarrow> []
         | Some fix \<Rightarrow>
             if names_patch fix
             then (case github env (fst step) of
                     Inl e \<Rightarrow> []
                   | Inr created \<Rightarrow>
                       [[''type'' \<mapsto> Str ''pull_request'', ''url'' \<mapsto> Str (html_url created),
                         ''status'' \<mapsto> Str ''created'']])
             else [])
      else if action_type (snd step) = ''rollback'' then
        [[''type'' \<mapsto> Str ''rollback'',
          ''service'' \<mapsto> js_or (opt_get (tr_labels triageResult) ''service'') (Str ''unknown''),
          ''version'' \<mapsto> Str ''previous'', ''status'' \<mapsto> Str ''rolled_back'']]
      else if action_type (snd step) = ''restart_service'' then
        [[''type'' \<mapsto> Str ''restart'',
          ''service'' \<mapsto> js_or (opt_get (tr_labels triageResult) ''service'') (Str ''unknown''),
          ''status'' \<mapsto> Str ''restarted'']]
      else if action_type (snd step) = ''scale_service'' then
        [[''type'' \<mapsto> Str ''scale'',
          ''service'' \<mapsto> js_or (opt_get (tr_labels triageResult) ''service'') (Str ''unknown''),
          ''replicas'' \<mapsto> Num 4, ''status'' \<mapsto> Str ''scaled'']]
      else if action_type (snd step) = ''create_ticket'' then
        (case jira env (fst step) of
           NotConfigured \<Rightarrow>
             [[''type'' \<mapsto> Str ''jira_ticket'', ''ticket'' \<mapsto> Str ''N/A'', ''url'' \<mapsto> Str ''N/A'',
               ''status'' \<mapsto> Str ''skipped'']]
         | IssueCreated key \<Rightarrow>
             [[''type'' \<mapsto> Str ''jira_ticket'', ''ticket'' \<mapsto> Str key,
               ''url'' \<mapsto> Str (''https://'' @ jiraDomain env @ ''/browse/'' @ key),
               ''status'' \<mapsto> Str ''created'']]
         | RequestFailed \<Rightarrow>
             [[''type'' \<mapsto> Str ''jira_ticket'', ''ticket'' \<mapsto> Str ''N/A'', ''url'' \<mapsto> Str ''N/A'',
               ''status'' \<mapsto> Str ''failed'']])
      else [])"

text \<open>
  The pull request an action leaves in the results: the one it created, on the branch
  named after the alert and the instant of the action; the results keep the last one.
\<close>

definition expected_pull_request ::
  "collaborators \<Rightarrow> TriageResult \<Rightarrow> nat \<times> SuggestedAction \<Rightarrow> PullRequest option" where
  "expected_pull_request env triageResult step =
     (if action_type (snd step) = ''apply_fix'' then
        (case description (snd step) of
           None \<Rightarrow> None
         | Some fix \<Rightarrow>
             if names_patch fix
             then (case github env (fst step) of
                     Inl e \<Rightarrow> None
                   | Inr created \<Rightarrow>
                       Some \<lparr>pr_url = html_url created, pr_number = gh_number created,
                             pr_state = gh_state created,
                             pr_branch = ''autofix/'' @ alertId triageResult @ ''-''
                                           @ show_nat (fix_now env (fst step))\<rparr>)
             else None)
      else None)"

fun last_created :: "PullRequest option list \<Rightarrow> PullRequest option" where
  "last_created [] = None"
| "last_created (p # ps) = (case last_created ps of None \<Rightarrow> p | Some q \<Rightarrow> Some q)"

text \<open>
  A triage result for the alert of the scenario, with the first runbook of the agent's
  list matched (its keyword \<^verbatim>\<open>memory\<close> occurs in the alert's name), and collaborators
  of which GitHub refuses every request while Jira creates the issue.
\<close>

definition rb_001 :: Runbook where
  "rb_001 = \<lparr>rb_id = ''rb-001'', title = ''High Memory Usage Mitigation'',
              rb_keywords = [''memory'', ''oom'', ''resource''],
              steps = [''Identify memory-intensive processes'',
                       ''Check for memory leaks in recent deployments'',
                       ''Consider scaling horizontally'',
                       ''Implement memory limits if not present'']\<rparr>"

definition hypothesis_fp1 :: Hypothesis where
  "hypothesis_fp1 =
     \<lparr>primaryCause = ''Memory exhaustion or leak'', confidence = 9 / 10,
      evidence = [''Alert name contains \"Memory\"'', ''Found 1 relevant runbook(s)''],
      suggestedFix = Some ''Identify memory-intensive processes''\<rparr>"

definition triage_fp1 :: TriageResult where
  "triage_fp1 =
     \<lparr>alertId = ''fp-1'', tr_summary = ''Memory usage at 95%'', tr_severity = ''critical'',
      tr_labels = Undefined, hypothesis = hypothesis_fp1,
      suggestedActions = generateSuggestedActions hypothesis_fp1 [rb_001],
      tr_runbooks = [rb_001]\<rparr>"

definition github_refuses :: collaborators where
  "github_refuses =
     \<lparr>github = (\<lambda>i. Inl (Thrown ''Request failed with status code 403'')),
      jira = (\<lambda>i. IssueCreated ''OPS-1''),
      jiraDomain = ''example.atlassian.net'',
      prometheus_alerts = Inr [],
      fix_now = (\<lambda>i. 0)\<rparr>"

section \<open>Alert ingestion\<close>

text \<open>
  \<^verbatim>\<open>WatcherAgent\<close> (its set of processed fingerprints, the cycle of its poll loop,
  \<^verbatim>\<open>injectAlert\<close>), the handler of \<^verbatim>\<open>POST /webhook/prometheus\<close> and the listener that
  the orchestrator registers for the \<^verbatim>\<open>alert\<close> event. The event emitter is kept as
  the sequence of the alerts emitted on it, in order.
\<close>

text \<open>Property read \<^verbatim>\<open>v.k\<close> on any value: a \<^verbatim>\<open>TypeError\<close> on \<^verbatim>\<open>undefined\<close> and
  \<^verbatim>\<open>null\<close>.\<close>

fun js_prop :: "jsval \<Rightarrow> string \<Rightarrow> js_error + jsval" where
  "js_prop Undefined k = Inl TypeError"
| "js_prop Null k = Inl TypeError"
| "js_prop (Obj o') k = Inr (get o' k)"
| "js_prop _ k = Inr Undefined"

text \<open>\<^verbatim>\<open>Buffer.from(key).toString('base64')\<close>, on the bytes of the string.\<close>

definition base64_char :: "nat \<Rightarrow> char" where
  "base64_char n =
     ''ABCDEFGHIJKLMNOPQRSTUVWXYZabcdefghijklmnopqrstuvwxyz0123456789+/'' ! n"

fun base64_bytes :: "nat list \<Rightarrow> string" where
  "base64_bytes [] = []"
| "base64_bytes [a] =
     [base64_char (a div 4), base64_char ((a mod 4) * 16), CHR ''='', CHR ''='']"
| "base64_bytes [a, b] =
     [base64_char (a div 4), base64_char ((a mod 4) * 16 + b div 16),
      base64_char ((b mod 16) * 4), CHR ''='']"
| "base64_bytes (a # b # c # rest) =
     [base64_char (a div 4), base64_char ((a mod 4) * 16 + b div 16),
      base64_char ((b mod 16) * 4 + c div 64), base64_char (c mod 64)] @ base64_bytes rest"

definition base64 :: "string \<Rightarrow> string" where
  "base64 s = base64_bytes (map of_char s)"

record ingestion =
  processedAlerts :: "jsval set"
  emitted :: "jsval list"

definition no_alerts :: ingestion where
  "no_alerts = \<lparr>processedAlerts = {}, emitted = []\<rparr>"

definition generateFingerprint :: "jsval \<Rightarrow> js_error + string" where
  "generateFingerprint alert =
     (case js_prop alert ''labels'' of
        Inl e \<Rightarrow> Inl e
      | Inr labels \<Rightarrow>
         (case js_prop labels ''alertname'' of
            Inl e \<Rightarrow> Inl e
          | Inr alertname \<Rightarrow>
             (case js_prop labels ''instance'' of
                Inl e \<Rightarrow> Inl e
              | Inr inst \<Rightarrow>
                 (case js_prop alert ''activeAt'' of
                    Inl e \<Rightarrow> Inl e
                  | Inr activeAt \<Rightarrow>
                      Inr (base64 (ToString alertname @ ''-''
                                   @ ToString (js_or inst (Str ''unknown'')) @ ''-''
                                   @ ToString activeAt))))))"

text \<open>
  The body of the loop of a poll cycle, for one alert of the list Prometheus returned.
  A thrown error leaves the state as it is: nothing is written before the fingerprint
  is computed, and nothing throws after.
\<close>

definition poll_alert :: "jsval \<Rightarrow> ingestion \<Rightarrow> js_error + ingestion" where
  "poll_alert alert w =
     (case js_prop alert ''state'' of
        Inl e \<Rightarrow> Inl e
      | Inr state \<Rightarrow>
          if state = Str ''firing'' then
            (case generateFingerprint alert of
               Inl e \<Rightarrow> Inl e
             | Inr fingerprint \<Rightarrow>
                 if Str fingerprint \<notin> processedAlerts w then
                   (let normalizedAlert =
                          Obj [''fingerprint'' \<mapsto> Str fingerprint,
                               ''labels'' \<mapsto> opt_get alert ''labels'',
                               ''annotations'' \<mapsto> opt_get alert ''annotations'',
                               ''startsAt'' \<mapsto> opt_get alert ''activeAt'',
                               ''status'' \<mapsto> Str ''firing'']
                    in Inr (w\<lparr>processedAlerts := insert (Str fingerprint) (processedAlerts w),
                              emitted := emitted w @ [normalizedAlert]\<rparr>))
                 else Inr w)
          else Inr w)"

fun poll_alerts :: "jsval list \<Rightarrow> ingestion \<Rightarrow> ingestion" where
  "poll_alerts [] w = w"
| "poll_alerts (alert # alerts) w =
     (case poll_alert alert w of
        Inl e \<Rightarrow> w
      | Inr w' \<Rightarrow> poll_alerts alerts w')"

text \<open>
  One cycle of the poll loop. The argument is the list \<^verbatim>\<open>response.data?.data?.alerts ||
  []\<close> of the request, or the error of the request. The \<^verbatim>\<open>try\<close> around the cycle catches
  every error: the cycle ends there and the alerts handled before stay handled.
\<close>

definition poll_cycle :: "js_error + jsval list \<Rightarrow> ingestion \<Rightarrow> ingestion" where
  "poll_cycle response w =
     (case response of
        Inl e \<Rightarrow> w
      | Inr alerts \<Rightarrow> poll_alerts alerts w)"

text \<open>\<^verbatim>\<open>injectAlert\<close>, the method "to manually inject an alert (for testing/webhooks)".
  Its log line reads \<^verbatim>\<open>alert.labels.alertname\<close> between the insertion and the emission.\<close>

definition injectAlert :: "obj \<Rightarrow> ingestion \<Rightarrow> js_error option \<times> ingestion" where
  "injectAlert alert w =
     (if get alert ''fingerprint'' \<notin> processedAlerts w then
        (let w1 = w\<lparr>processedAlerts := insert (get alert ''fingerprint'') (processedAlerts w)\<rparr>
         in case js_prop (get alert ''labels'') ''alertname'' of
              Inl e \<Rightarrow> (Some e, w1)
            | Inr alertname \<Rightarrow> (None, w1\<lparr>emitted := emitted w1 @ [Obj alert]\<rparr>))
      else (None, w))"

datatype http_response = Received | InvalidJSON

text \<open>
  The handler of \<^verbatim>\<open>POST /webhook/prometheus\<close>; its argument is the outcome of
  \<^verbatim>\<open>JSON.parse(body)\<close>. It emits every element of \<^verbatim>\<open>data.alerts || []\<close>; a value that
  cannot be iterated throws before anything is emitted, and an error is answered with
  status 400.
\<close>

definition webhook_prometheus :: "js_error + jsval \<Rightarrow> ingestion \<Rightarrow> http_response \<times> ingestion" where
  "webhook_prometheus parsed w =
     (case parsed of
        Inl e \<Rightarrow> (InvalidJSON, w)
      | Inr data \<Rightarrow>
         (case js_prop data ''alerts'' of
            Inl e \<Rightarrow> (InvalidJSON, w)
          | Inr alerts \<Rightarrow>
             (case js_or alerts (Arr []) of
                Arr xs \<Rightarrow> (Received, w\<lparr>emitted := emitted w @ xs\<rparr>)
              | Str s \<Rightarrow> (Received, w\<lparr>emitted := emitted w @ map (\<lambda>c. Str [c]) s\<rparr>)
              | _ \<Rightarrow> (InvalidJSON, w))))"

text \<open>
  The listener of the \<^verbatim>\<open>alert\<close> event, up to the creation of the incident (what
  follows, notification and triage, creates no incident): a falsy alert is dropped, any
  other goes to \<^verbatim>\<open>createIncident\<close>. A truthy value that is not an object (a string, a
  number, \<^verbatim>\<open>true\<close>, an array) has none of the properties \<^verbatim>\<open>createIncident\<close> reads, so
  the incident and the relation are those of the empty object; the payload of the
  \<^verbatim>\<open>incident_created\<close> event, the last event of the timeline then, holds the value
  itself. The events are taken in the order of their emission.
\<close>

definition on_alert :: "runtime \<Rightarrow> jsval \<Rightarrow> store \<Rightarrow> store" where
  "on_alert rt alert s =
     (if \<not> truthy alert then s
      else case alert of
        Obj o' \<Rightarrow> snd (IncidentManager_createIncident rt o' s)
      | _ \<Rightarrow>
         (let s' = snd (IncidentManager_createIncident rt Map.empty s)
          in s'\<lparr>timeline := butlast (timeline s') @
                 [(last (timeline s'))
                    \<lparr>event_data := Obj [''alert'' \<mapsto> alert, ''source'' \<mapsto> Str ''prometheus'']\<rparr>]\<rparr>))"

definition deliver :: "runtime \<Rightarrow> jsval list \<Rightarrow> store \<Rightarrow> store" where
  "deliver rt events s = fold (on_alert rt) events s"

section \<open>Properties of the triage rules\<close>

lemma correlate_primaryCause: "primaryCause (correlate context h) = primaryCause h"
  by (simp add: correlate_def Let_def split: list.splits)

lemma correlate_confidence:
  "confidence (correlate context h) =
     (let c1 = (if changes context \<noteq> [] then min (js_add (confidence h) (1 / 10)) 1
                else confidence h)
      in if runbooks context \<noteq> [] then min (js_add c1 (1 / 10)) 1 else c1)"
  by (simp add: correlate_def Let_def split: list.splits)

lemma generateHypothesis_rules:
  assumes "opt_includes (opt_get (get alert ''labels'') ''alertname'') ''Memory'' = Inr mem"
    and "opt_includes (opt_get (get alert ''labels'') ''alertname'') ''CPU'' = Inr cpu"
  shows "\<exists>h. generateHypothesis alert context = Inr h
     \<and> primaryCause h =
         (if mem then ''Memory exhaustion or leak''
          else if cpu then ''High CPU utilization''
          else if get alert ''severity'' = Str ''critical'' then ''Service outage or critical failure''
          else ''Unknown'')
     \<and> confidence h =
         (let c0 = (if mem then 8 / 10 else if cpu then 75 / 100
                    else if get alert ''severity'' = Str ''critical'' then 7 / 10 else 0);
              c1 = (if changes context \<noteq> [] then min (js_add c0 (1 / 10)) 1 else c0)
          in if runbooks context \<noteq> [] then min (js_add c1 (1 / 10)) 1 else c1)"
  using assms
  by (simp add: generateHypothesis_def correlate_primaryCause correlate_confidence Let_def)

text \<open>
  Claim C4 (hypothesis generation is the stated rule set). The rules hold as
  \<open>generateHypothesis_rules\<close> states them, with the severity read from the top-level
  \<^verbatim>\<open>severity\<close> property of the alert. An alert as the watcher and the webhook deliver
  it carries its severity under \<^verbatim>\<open>labels\<close> only: for such an alert that is critical
  and whose name signals neither memory nor CPU, the hypothesis stays at the initial
  cause \<^verbatim>\<open>Unknown\<close> with confidence 0, where the rule set gives the service-outage
  cause with confidence 0.7.
\<close>

theorem generateHypothesis_labels_severity_critical:
  "generateHypothesis
     [''fingerprint'' \<mapsto> Str ''fp-1'',
      ''labels'' \<mapsto> Obj [''alertname'' \<mapsto> Str ''ServiceDown'', ''severity'' \<mapsto> Str ''critical''],
      ''annotations'' \<mapsto> Obj [''summary'' \<mapsto> Str ''Service is down''],
      ''startsAt'' \<mapsto> Str ''2024-01-01T00:00:00Z'',
      ''status'' \<mapsto> Str ''firing'']
     \<lparr>changes = [], runbooks = []\<rparr>
   = Inr \<lparr>primaryCause = ''Unknown'', confidence = 0, evidence = [], suggestedFix = Some []\<rparr>"
  by (simp add: generateHypothesis_def get_def correlate_def)

text \<open>The example of the specification: \<^verbatim>\<open>HighMemoryUsage\<close>, no recent change, no runbook.\<close>

lemma generateHypothesis_HighMemoryUsage:
  "generateHypothesis
     [''labels'' \<mapsto> Obj [''alertname'' \<mapsto> Str ''HighMemoryUsage'', ''severity'' \<mapsto> Str ''critical'']]
     \<lparr>changes = [], runbooks = []\<rparr>
   = Inr \<lparr>primaryCause = ''Memory exhaustion or leak'', confidence = 8 / 10,
          evidence = [''Alert name contains \"Memory\"''],
          suggestedFix = Some ''Restart affected service or scale horizontally''\<rparr>"
  by (simp add: generateHypothesis_def get_def correlate_def)

text \<open>
  Claim C7, as stated, asks for an apply-fix action in every derived list. With
  confidence 0.6 and no runbook the derived list holds no action of type
  \<^verbatim>\<open>apply_fix\<close>.
\<close>

theorem generateSuggestedActions_no_apply_fix:
  "''apply_fix'' \<notin> set (map action_type
      (generateSuggestedActions
         \<lparr>primaryCause = ''Unknown'', confidence = 6 / 10, evidence = [], suggestedFix = Some []\<rparr> []))"
  by (simp add: generateSuggestedActions_def)

text \<open>
  Claim C7, amended: the derived actions hold exactly one \<^verbatim>\<open>create_ticket\<close> action,
  automated; exactly one \<^verbatim>\<open>follow_runbook\<close> action, not automated, when a runbook
  matched and none otherwise; exactly one \<^verbatim>\<open>apply_fix\<close> action when the confidence
  exceeds 0.7 and none otherwise, automated iff the confidence exceeds 0.8; exactly one
  \<^verbatim>\<open>escalate\<close> action, automated, when the confidence is below 0.5 and none otherwise.
\<close>

theorem generateSuggestedActions_rules:
  "map automated (filter (\<lambda>a. action_type a = ''create_ticket'') (generateSuggestedActions h rbs)) = [True]
   \<and> map automated (filter (\<lambda>a. action_type a = ''follow_runbook'') (generateSuggestedActions h rbs))
       = (if rbs \<noteq> [] then [False] else [])
   \<and> map automated (filter (\<lambda>a. action_type a = ''apply_fix'') (generateSuggestedActions h rbs))
       = (if confidence h > 7 / 10 then [confidence h > 8 / 10] else [])
   \<and> map automated (filter (\<lambda>a. action_type a = ''escalate'') (generateSuggestedActions h rbs))
       = (if confidence h < 5 / 10 then [True] else [])"
  by (simp add: generateSuggestedActions_def split: list.splits)

theorem generateSuggestedActions_rules_witness:
  "map automated (filter (\<lambda>a. action_type a = ''apply_fix'')
      (generateSuggestedActions
         \<lparr>primaryCause = ''Memory exhaustion or leak'', confidence = 9 / 10, evidence = [],
          suggestedFix = Some ''Restart''\<rparr> [])) = [True]
   \<and> map automated (filter (\<lambda>a. action_type a = ''escalate'')
      (generateSuggestedActions
         \<lparr>primaryCause = ''Memory exhaustion or leak'', confidence = 9 / 10, evidence = [],
          suggestedFix = Some ''Restart''\<rparr> [])) = []"
  using generateSuggestedActions_rules
    [of "\<lparr>primaryCause = ''Memory exhaustion or leak'', confidence = 9 / 10, evidence = [],
          suggestedFix = Some ''Restart''\<rparr>" "[]"]
  by simp

section \<open>Properties of the store and the incident manager\<close>

lemmas run_defs = IncidentManager_createIncident_def DatabaseService_createIncident_def
  IncidentManager_updateIncident_def DatabaseService_updateIncident_def
  addTimelineEvent_def addMemoryRelation_def new_Date_def new_uuid_def
  empty_store_def test_runtime_def get_def js_or_def Let_def

lemma show_nat_digit: "n < 10 \<Longrightarrow> show_nat n = [digit_char n]"
  by (simp add: show_nat.simps)

lemma incidents_addTimelineEvent:
  "incidents (snd (addTimelineEvent rt i ty d s)) = incidents s"
  by (simp add: addTimelineEvent_def new_Date_def Let_def)

lemma timeline_addTimelineEvent:
  "timeline (snd (addTimelineEvent rt i ty d s)) =
     timeline s @ [\<lparr>ev_id = length (timeline s) + 1, incident_id = i, event_type = ty,
                     event_data = d, ev_created_at = Date_now rt (clock_reads s)\<rparr>]"
  by (simp add: addTimelineEvent_def new_Date_def Let_def)

lemma relations_addTimelineEvent:
  "relations (snd (addTimelineEvent rt i ty d s)) = relations s"
  by (simp add: addTimelineEvent_def new_Date_def Let_def)

lemma DatabaseService_updateIncident_missing:
  "incidents s (Str id') = None \<Longrightarrow> DatabaseService_updateIncident rt id' updates s = (None, s)"
  by (simp add: DatabaseService_updateIncident_def Let_def)

lemma DatabaseService_updateIncident_found:
  assumes "incidents s (Str id') = Some inc"
  shows "\<exists>inc'. DatabaseService_updateIncident rt id' updates s
            = (Some inc', s\<lparr>clock_reads := Suc (clock_reads s),
                            incidents := (incidents s)(Str id' \<mapsto> inc')\<rparr>)
          \<and> get inc' ''status'' =
              (if updates ''status'' = None then get inc ''status'' else get updates ''status'')
          \<and> get inc' ''updated_at'' = Str (toISOString rt (Date_now rt (clock_reads s)))"
  using assms
  by (simp add: DatabaseService_updateIncident_def Let_def new_Date_def get_def map_add_def
           split: option.splits)

text \<open>
  Claim C2, amended: \<^verbatim>\<open>updateIncident\<close> applies no transition guard. For an existing
  incident the call returns the updated incident, which is the one stored afterwards,
  and its status is the status of the patch whenever the patch has a \<^verbatim>\<open>status\<close>
  property, whatever the status was before; a patch without that property leaves the
  status as it was.
\<close>

theorem updateIncident_status_unguarded:
  assumes "incidents s (Str id') = Some inc"
  shows "\<exists>inc'. fst (IncidentManager_updateIncident rt id' updates s) = Inr (Some inc')
          \<and> incidents (snd (IncidentManager_updateIncident rt id' updates s)) (Str id') = Some inc'
          \<and> get inc' ''status'' =
              (if updates ''status'' = None then get inc ''status'' else get updates ''status'')"
proof -
  from DatabaseService_updateIncident_found [OF assms, of rt updates]
  obtain inc' where db: "DatabaseService_updateIncident rt id' updates s
            = (Some inc', s\<lparr>clock_reads := Suc (clock_reads s),
                            incidents := (incidents s)(Str id' \<mapsto> inc')\<rparr>)"
    and st: "get inc' ''status'' =
              (if updates ''status'' = None then get inc ''status'' else get updates ''status'')"
    by blast
  have "fst (IncidentManager_updateIncident rt id' updates s) = Inr (Some inc')"
    by (simp add: IncidentManager_updateIncident_def db Let_def new_Date_def)
  moreover have "incidents (snd (IncidentManager_updateIncident rt id' updates s)) (Str id')
     = Some inc'"
    by (simp add: IncidentManager_updateIncident_def db Let_def new_Date_def
          incidents_addTimelineEvent)
  ultimately show ?thesis using st by blast
qed

text \<open>
  Claim C2, as stated, fails: the incident of the scenario, once resolved, is set back
  to \<^verbatim>\<open>new\<close> by the next update.
\<close>

theorem updateIncident_reopens_resolved:
  "incident_status ''inc-uuid-0'' store_resolved = Some (Str ''resolved'')
   \<and> incident_status ''inc-uuid-0''
        (snd (IncidentManager_updateIncident test_runtime ''inc-uuid-0''
                [''status'' \<mapsto> Str ''new''] store_resolved)) = Some (Str ''new'')"
  unfolding store_resolved_def store_created_def alert_fp1_def incident_status_def
  by (simp add: run_defs show_nat_digit digit_char_def)

text \<open>
  The amended claim C2 at the resolved incident of the scenario.
\<close>

theorem updateIncident_status_unguarded_witness:
  "incidents store_resolved (Str ''inc-uuid-0'') \<noteq> None
   \<and> (\<exists>inc'. fst (IncidentManager_updateIncident test_runtime ''inc-uuid-0''
                     [''status'' \<mapsto> Str ''new''] store_resolved) = Inr (Some inc')
          \<and> get inc' ''status'' = Str ''new'')"
proof -
  have "\<exists>inc. incidents store_resolved (Str ''inc-uuid-0'') = Some inc"
    unfolding store_resolved_def store_created_def alert_fp1_def
    by (simp add: run_defs show_nat_digit digit_char_def)
  then obtain inc where h: "incidents store_resolved (Str ''inc-uuid-0'') = Some inc" ..
  from updateIncident_status_unguarded [OF h, of test_runtime "[''status'' \<mapsto> Str ''new'']"]
  show ?thesis using h by (auto simp: get_def)
qed


lemma incidents_addMemoryRelation:
  "incidents (snd (addMemoryRelation rt d s)) = incidents s"
  by (simp add: addMemoryRelation_def new_Date_def Let_def)

text \<open>
  Claim C3, as stated, fails: the incident created for the alert of the scenario has the
  status \<^verbatim>\<open>open\<close>, not \<^verbatim>\<open>new\<close>.
\<close>

theorem createIncident_status_open:
  "get (fst (IncidentManager_createIncident test_runtime alert_fp1 empty_store)) ''status''
     = Str ''open''
   \<and> get (fst (IncidentManager_createIncident test_runtime alert_fp1 empty_store)) ''status''
     \<noteq> Str ''new''"
  unfolding alert_fp1_def by (simp add: run_defs)

text \<open>
  Claim C3, amended: \<^verbatim>\<open>createIncident\<close> returns, and stores under a fresh identifier
  \<^verbatim>\<open>inc-<uuid>\<close>, an incident whose status is \<^verbatim>\<open>open\<close>; its summary is
  \<^verbatim>\<open>Unknown Alert\<close> when the alert carries no summary, no summary annotation and no
  \<^verbatim>\<open>alertname\<close> label, and its severity is \<^verbatim>\<open>warning\<close> when the alert carries no
  severity and no \<^verbatim>\<open>severity\<close> label; the call appends exactly one timeline event, of
  type \<^verbatim>\<open>incident_created\<close>, and exactly one relation, \<^verbatim>\<open>triggered_by\<close>, from the
  incident to the alert (its \<^verbatim>\<open>id\<close>, or else its fingerprint).
\<close>

theorem createIncident_result:
  "get (fst (IncidentManager_createIncident rt alert s)) ''status'' = Str ''open''
   \<and> get (fst (IncidentManager_createIncident rt alert s)) ''id''
       = Str (''inc-'' @ uuidv4 rt (uuid_reads s))
   \<and> incidents (snd (IncidentManager_createIncident rt alert s))
         (Str (''inc-'' @ uuidv4 rt (uuid_reads s)))
       = Some (fst (IncidentManager_createIncident rt alert s))
   \<and> (\<not> truthy (get alert ''summary'') \<and> \<not> truthy (opt_get (get alert ''annotations'') ''summary'')
        \<and> \<not> truthy (opt_get (get alert ''labels'') ''alertname'')
      \<longrightarrow> get (fst (IncidentManager_createIncident rt alert s)) ''summary'' = Str ''Unknown Alert'')
   \<and> (\<not> truthy (get alert ''severity'') \<and> \<not> truthy (opt_get (get alert ''labels'') ''severity'')
      \<longrightarrow> get (fst (IncidentManager_createIncident rt alert s)) ''severity'' = Str ''warning'')
   \<and> (\<exists>ev. timeline (snd (IncidentManager_createIncident rt alert s)) = timeline s @ [ev]
          \<and> event_type ev = ''incident_created''
          \<and> incident_id ev = ''inc-'' @ uuidv4 rt (uuid_reads s))
   \<and> (\<exists>rel. relations (snd (IncidentManager_createIncident rt alert s)) = relations s @ [rel]
          \<and> relationship rel = ''triggered_by''
          \<and> entity_type rel = ''incident''
          \<and> entity_id rel = ''inc-'' @ uuidv4 rt (uuid_reads s)
          \<and> related_type rel = ''alert''
          \<and> related_id rel = js_or (get alert ''id'') (get alert ''fingerprint''))"
  by (simp add: IncidentManager_createIncident_def DatabaseService_createIncident_def
        addTimelineEvent_def addMemoryRelation_def new_Date_def new_uuid_def Let_def
        get_def js_or_def)

text \<open>
  The amended claim C3 at the alert of the repository's test
  "should handle missing alert data gracefully".
\<close>

theorem createIncident_result_witness:
  "\<not> truthy (get [''id'' \<mapsto> Str ''test-alert'', ''fingerprint'' \<mapsto> Str ''test-fp''] ''summary'')
   \<and> \<not> truthy (get [''id'' \<mapsto> Str ''test-alert'', ''fingerprint'' \<mapsto> Str ''test-fp''] ''severity'')
   \<and> get (fst (IncidentManager_createIncident test_runtime
         [''id'' \<mapsto> Str ''test-alert'', ''fingerprint'' \<mapsto> Str ''test-fp''] empty_store)) ''summary''
       = Str ''Unknown Alert''
   \<and> get (fst (IncidentManager_createIncident test_runtime
         [''id'' \<mapsto> Str ''test-alert'', ''fingerprint'' \<mapsto> Str ''test-fp''] empty_store)) ''severity''
       = Str ''warning''
   \<and> get (fst (IncidentManager_createIncident test_runtime
         [''id'' \<mapsto> Str ''test-alert'', ''fingerprint'' \<mapsto> Str ''test-fp''] empty_store)) ''status''
       = Str ''open''"
  using createIncident_result [of test_runtime
      "[''id'' \<mapsto> Str ''test-alert'', ''fingerprint'' \<mapsto> Str ''test-fp'']" empty_store]
  by (simp add: get_def)

text \<open>
  Claim C5 (the status event carries the previous and the new status; \<^verbatim>\<open>updated_at\<close>
  is always updated). The incident of the scenario holds \<^verbatim>\<open>open\<close>; the update to
  \<^verbatim>\<open>triaged\<close> appends exactly one event, \<^verbatim>\<open>status_changed_to_triaged\<close>, whose
  \<^verbatim>\<open>previousStatus\<close> is \<^verbatim>\<open>triaged\<close>: the manager reads the status from the incident
  the store returns, which is already updated. \<open>updateIncident_status_event\<close> below shows
  the same for every existing incident, and \<open>DatabaseService_updateIncident_found\<close> that
  \<^verbatim>\<open>updated_at\<close> is set to the instant of the update.
\<close>

theorem updateIncident_previousStatus:
  "incident_status ''inc-uuid-0'' store_created = Some (Str ''open'')
   \<and> event_types (snd (IncidentManager_updateIncident test_runtime ''inc-uuid-0''
          [''status'' \<mapsto> Str ''triaged''] store_created))
       = [''incident_created'', ''status_changed_to_triaged'']
   \<and> last_previousStatus (snd (IncidentManager_updateIncident test_runtime ''inc-uuid-0''
          [''status'' \<mapsto> Str ''triaged''] store_created))
       = Str ''triaged''"
  unfolding store_created_def alert_fp1_def incident_status_def event_types_def
    last_previousStatus_def
  by (simp add: run_defs show_nat_digit digit_char_def)

text \<open>
  Claim C8 (an update of an unknown incident yields not-found, without an error and
  without a timeline event). With the patch of the repository's test "should return
  null for non-existent incident" the call throws a \<^verbatim>\<open>TypeError\<close>;
  \<open>updateIncident_missing_status\<close> shows it for every unknown identifier and every
  patch with a truthy status, and \<open>updateIncident_missing_triaged\<close> that a patch with a
  triage result and no status returns \<^verbatim>\<open>null\<close> but appends a \<^verbatim>\<open>triaged\<close> event.
\<close>

theorem updateIncident_missing_throws:
  "IncidentManager_updateIncident test_runtime ''non-existent''
      [''status'' \<mapsto> Str ''resolved''] empty_store
   = (Inl TypeError, empty_store)"
  by (simp add: IncidentManager_updateIncident_def DatabaseService_updateIncident_def
        empty_store_def get_def Let_def)

lemma updateIncident_missing_status:
  assumes "incidents s (Str id') = None" and "truthy (get updates ''status'')"
  shows "IncidentManager_updateIncident rt id' updates s = (Inl TypeError, s)"
  using assms
  by (simp add: IncidentManager_updateIncident_def DatabaseService_updateIncident_missing)

lemma updateIncident_missing_triaged:
  "fst (IncidentManager_updateIncident test_runtime ''non-existent''
      [''triageResult'' \<mapsto> Obj [''hypothesis'' \<mapsto> Str ''h'']] empty_store) = Inr None
   \<and> map event_type (timeline (snd (IncidentManager_updateIncident test_runtime ''non-existent''
      [''triageResult'' \<mapsto> Obj [''hypothesis'' \<mapsto> Str ''h'']] empty_store))) = [''triaged'']"
  by (simp add: IncidentManager_updateIncident_def DatabaseService_updateIncident_def
        addTimelineEvent_def new_Date_def empty_store_def get_def Let_def)

lemma updateIncident_status_event:
  assumes "incidents s (Str id') = Some inc" and "truthy (get updates ''status'')"
    and "\<not> truthy (get updates ''triageResult'')" and "\<not> truthy (get updates ''fixResult'')"
  shows "\<exists>ev. timeline (snd (IncidentManager_updateIncident rt id' updates s)) = timeline s @ [ev]
     \<and> event_type ev = ''status_changed_to_'' @ ToString (get updates ''status'')
     \<and> opt_get (event_data ev) ''previousStatus'' = get updates ''status''
     \<and> opt_get (event_data ev) ''newStatus'' = get updates ''status''"
proof -
  from DatabaseService_updateIncident_found [OF assms(1), of rt updates]
  obtain inc' where db: "DatabaseService_updateIncident rt id' updates s
            = (Some inc', s\<lparr>clock_reads := Suc (clock_reads s),
                            incidents := (incidents s)(Str id' \<mapsto> inc')\<rparr>)"
    and st: "get inc' ''status'' =
              (if updates ''status'' = None then get inc ''status'' else get updates ''status'')"
    by blast
  have "updates ''status'' \<noteq> None"
    using assms(2) by (auto simp: get_def split: option.splits)
  with st have "get inc' ''status'' = get updates ''status''" by simp
  then show ?thesis
    using assms(2-4)
    by (simp add: IncidentManager_updateIncident_def db Let_def new_Date_def
          timeline_addTimelineEvent get_def)
qed

subsection \<open>Relations\<close>

lemma set_insert_by: "set (insert_by cmp x ys) = insert x (set ys)"
  by (induction ys) auto

lemma set_sort_by: "set (sort_by cmp xs) = set xs"
  by (induction xs) (simp_all add: sort_by_def set_insert_by)

lemma sorted_insert_by_desc:
  "sorted_wrt (\<lambda>a b. key b \<le> key a) ys \<Longrightarrow>
   sorted_wrt (\<lambda>a b. key b \<le> key a) (insert_by (\<lambda>a b. int (key b) - int (key a)) x ys)"
  by (induction ys) (auto simp: set_insert_by)

lemma sorted_sort_by_desc:
  "sorted_wrt (\<lambda>a b. key b \<le> key a) (sort_by (\<lambda>a b. int (key b) - int (key a)) xs)"
proof (induction xs)
  case Nil
  show ?case by (simp add: sort_by_def)
next
  case (Cons x xs)
  have "sort_by (\<lambda>a b. int (key b) - int (key a)) (x # xs)
        = insert_by (\<lambda>a b. int (key b) - int (key a)) x
            (sort_by (\<lambda>a b. int (key b) - int (key a)) xs)"
    by (simp add: sort_by_def)
  with Cons show ?case by (simp add: sorted_insert_by_desc)
qed

lemma relations_linkIncidents:
  "relations (linkIncidents rt a b rel s) =
     relations s @
       [\<lparr>rel_id = length (relations s) + 1, entity_type = ''incident'', entity_id = a,
         related_type = ''incident'', related_id = Str b, relationship = rel,
         metadata = Obj [''timestamp'' \<mapsto> Str (toISOString rt (Date_now rt (clock_reads s)))],
         rel_created_at = Date_now rt (Suc (clock_reads s))\<rparr>]"
  by (simp add: linkIncidents_def addMemoryRelation_def new_Date_def Let_def)

text \<open>
  Claim C10: \<^verbatim>\<open>getRelations\<close> returns exactly the stored edges that match the queried
  type and identifier on their entity side or on their related side, newest first; the
  edge that \<^verbatim>\<open>linkIncidents(a, b, rel)\<close> appends, from \<open>a\<close> to \<open>b\<close> with the label
  \<open>rel\<close>, is returned for \<open>a\<close> and for \<open>b\<close>.
\<close>

theorem getRelations_bidirectional:
  "set (getRelations entityType entityId s) =
     {r \<in> set (relations s).
        (entity_type r = entityType \<and> entity_id r = entityId) \<or>
        (related_type r = entityType \<and> related_id r = Str entityId)}
   \<and> sorted_wrt (\<lambda>a b. rel_created_at b \<le> rel_created_at a) (getRelations entityType entityId s)
   \<and> last (relations (linkIncidents rt a b rel s))
        \<in> set (getRelations ''incident'' a (linkIncidents rt a b rel s))
   \<and> last (relations (linkIncidents rt a b rel s))
        \<in> set (getRelations ''incident'' b (linkIncidents rt a b rel s))
   \<and> entity_id (last (relations (linkIncidents rt a b rel s))) = a
   \<and> related_id (last (relations (linkIncidents rt a b rel s))) = Str b
   \<and> relationship (last (relations (linkIncidents rt a b rel s))) = rel"
proof -
  have "set (getRelations entityType entityId s) =
     {r \<in> set (relations s).
        (entity_type r = entityType \<and> entity_id r = entityId) \<or>
        (related_type r = entityType \<and> related_id r = Str entityId)}"
    by (auto simp: getRelations_def set_sort_by)
  moreover have "sorted_wrt (\<lambda>a b. rel_created_at b \<le> rel_created_at a)
      (getRelations entityType entityId s)"
    unfolding getRelations_def by (rule sorted_sort_by_desc)
  moreover have "last (relations (linkIncidents rt a b rel s))
        \<in> set (getRelations ''incident'' a (linkIncidents rt a b rel s))"
    by (simp add: getRelations_def set_sort_by relations_linkIncidents)
  moreover have "last (relations (linkIncidents rt a b rel s))
        \<in> set (getRelations ''incident'' b (linkIncidents rt a b rel s))"
    by (simp add: getRelations_def set_sort_by relations_linkIncidents)
  ultimately show ?thesis
    by (simp add: relations_linkIncidents)
qed

subsection \<open>Round trip through the store\<close>

lemma get_upd_same: "get (m(k \<mapsto> get m k)) k' = get m k'"
  by (simp add: get_def)

lemma get_upd: "get (m(k \<mapsto> v)) k' = (if k' = k then v else get m k')"
  by (simp add: get_def)

lemma parse_json_fields_plain:
  "\<forall>k\<in>set ks. \<not> is_string (get incident k) \<Longrightarrow>
   \<exists>inc'. parse_json_fields rt ks incident = (inc', None) \<and> (\<forall>k. get inc' k = get incident k)"
proof (induction ks arbitrary: incident)
  case Nil
  show ?case by simp
next
  case (Cons k ks)
  let ?inc = "incident(k \<mapsto> get incident k)"
  have eq: "\<And>k'. get ?inc k' = get incident k'" by (rule get_upd_same)
  from Cons.prems have ns: "\<not> is_string (get incident k)" by simp
  then have step: "parse_json_fields rt (k # ks) incident = parse_json_fields rt ks ?inc"
    by (cases "get incident k") simp_all
  from Cons.prems have "\<forall>k'\<in>set ks. \<not> is_string (get ?inc k')" by (simp add: eq)
  from Cons.IH [OF this] obtain inc' where
    "parse_json_fields rt ks ?inc = (inc', None)" and "\<forall>k'. get inc' k' = get ?inc k'" by blast
  with step eq show ?case by simp
qed

lemma getIncident_found:
  assumes "incidents s (Str id') = Some incident"
    and "\<not> is_string (get incident ''labels'')" and "\<not> is_string (get incident ''annotations'')"
    and "\<not> is_string (get incident ''triage_result'')" and "\<not> is_string (get incident ''fix_result'')"
  shows "\<exists>r. fst (IncidentManager_getIncident rt id' s) = Inr (Some r)
     \<and> get r ''labels'' = get incident ''labels''
     \<and> get r ''annotations'' = get incident ''annotations''
     \<and> get r ''triage_result'' =
         (if get incident ''triage_result'' = Undefined then get incident ''triageResult''
          else get incident ''triage_result'')
     \<and> get r ''triageResult'' =
         js_coalesce (if get incident ''triage_result'' = Undefined then get incident ''triageResult''
                      else get incident ''triage_result'') (get incident ''triageResult'')
     \<and> get r ''fix_result'' =
         (if get incident ''fix_result'' = Undefined then get incident ''fixResult''
          else get incident ''fix_result'')
     \<and> get r ''fixResult'' =
         js_coalesce (if get incident ''fix_result'' = Undefined then get incident ''fixResult''
                      else get incident ''fix_result'') (get incident ''fixResult'')"
proof -
  have "\<forall>k\<in>set [''labels'', ''annotations'', ''triage_result'', ''fix_result''].
          \<not> is_string (get incident k)"
    using assms(2-5) by simp
  from parse_json_fields_plain [OF this, of rt] obtain inc1 where
    p: "parse_json_fields rt [''labels'', ''annotations'', ''triage_result'', ''fix_result''] incident
        = (inc1, None)"
    and g: "\<And>k. get inc1 k = get incident k" by blast
  show ?thesis
    unfolding IncidentManager_getIncident_def DatabaseService_getIncident_def
    by (simp add: assms(1) p Let_def g get_upd del: parse_json_fields.simps)
qed

lemma DatabaseService_updateIncident_fields:
  assumes "incidents s (Str id') = Some inc"
  shows "\<exists>inc'. DatabaseService_updateIncident rt id' updates s
            = (Some inc', s\<lparr>clock_reads := Suc (clock_reads s),
                            incidents := (incidents s)(Str id' \<mapsto> inc')\<rparr>)
     \<and> get inc' ''triage_result'' =
          (if updates ''triage_result'' \<noteq> None then get updates ''triage_result''
           else if updates ''triageResult'' \<noteq> None then get updates ''triageResult''
           else get inc ''triage_result'')
     \<and> get inc' ''triageResult'' =
          (if updates ''triage_result'' \<noteq> None then get updates ''triage_result''
           else if updates ''triageResult'' \<noteq> None then get updates ''triageResult''
           else get inc ''triageResult'')
     \<and> get inc' ''fix_result'' =
          (if updates ''fix_result'' \<noteq> None then get updates ''fix_result''
           else if updates ''fixResult'' \<noteq> None then get updates ''fixResult''
           else get inc ''fix_result'')
     \<and> get inc' ''fixResult'' =
          (if updates ''fix_result'' \<noteq> None then get updates ''fix_result''
           else if updates ''fixResult'' \<noteq> None then get updates ''fixResult''
           else get inc ''fixResult'')
     \<and> get inc' ''labels'' =
          (if updates ''labels'' \<noteq> None then get updates ''labels'' else get inc ''labels'')
     \<and> get inc' ''annotations'' =
          (if updates ''annotations'' \<noteq> None then get updates ''annotations''
           else get inc ''annotations'')"
proof -
  define n1 where "n1 = (if updates ''triageResult'' \<noteq> None \<and> updates ''triage_result'' = None
             then (updates(''triage_result'' \<mapsto> get updates ''triageResult''))
                    (''triageResult'' := None)
             else updates)"
  define n2 where "n2 = (if n1 ''fixResult'' \<noteq> None \<and> n1 ''fix_result'' = None
             then (n1(''fix_result'' \<mapsto> get n1 ''fixResult''))(''fixResult'' := None)
             else n1)"
  define a1 where "a1 = (if n2 ''triage_result'' \<noteq> None
                    then n2(''triageResult'' \<mapsto> get n2 ''triage_result'') else n2)"
  define a2 where "a2 = (if a1 ''fix_result'' \<noteq> None
                    then a1(''fixResult'' \<mapsto> get a1 ''fix_result'') else a1)"
  define inc' where
    "inc' = inc ++ a2 ++ [''updated_at'' \<mapsto> Str (toISOString rt (Date_now rt (clock_reads s)))]"
  have db: "DatabaseService_updateIncident rt id' updates s
            = (Some inc', s\<lparr>clock_reads := Suc (clock_reads s),
                            incidents := (incidents s)(Str id' \<mapsto> inc')\<rparr>)"
    unfolding DatabaseService_updateIncident_def inc'_def a2_def a1_def n2_def n1_def Let_def
    by (simp add: assms new_Date_def split del: if_split cong: if_cong)
  have look: "\<And>k. k \<noteq> ''updated_at'' \<Longrightarrow>
      get inc' k = (case a2 k of None \<Rightarrow> get inc k | Some v \<Rightarrow> v)"
    by (simp add: inc'_def get_def map_add_def split: option.splits)
  have n1_tr: "n1 ''triage_result'' =
      (if updates ''triage_result'' \<noteq> None then updates ''triage_result''
       else updates ''triageResult'')"
    by (cases "updates ''triageResult''") (auto simp: n1_def get_def)
  have n1_fr: "n1 ''fix_result'' = updates ''fix_result''" "n1 ''fixResult'' = updates ''fixResult''"
    by (simp_all add: n1_def)
  have n1_lab: "n1 ''labels'' = updates ''labels''" "n1 ''annotations'' = updates ''annotations''"
    by (simp_all add: n1_def)
  have n2_tr: "n2 ''triage_result'' = n1 ''triage_result''"
    by (simp add: n2_def)
  have n2_fr: "n2 ''fix_result'' =
      (if updates ''fix_result'' \<noteq> None then updates ''fix_result'' else updates ''fixResult'')"
    by (cases "updates ''fixResult''") (auto simp: n2_def n1_fr get_def)
  have n2_lab: "n2 ''labels'' = updates ''labels''" "n2 ''annotations'' = updates ''annotations''"
    by (simp_all add: n2_def n1_lab)
  have n2_tR: "n2 ''triage_result'' = None \<Longrightarrow> n2 ''triageResult'' = None"
    by (auto simp: n2_def n1_def split: if_splits)
  have n2_fR: "n2 ''fix_result'' = None \<Longrightarrow> n2 ''fixResult'' = None"
    by (auto simp: n2_def n1_def split: if_splits)
  have a1_tr: "a1 ''triage_result'' = n2 ''triage_result''"
    and a1_tR: "a1 ''triageResult'' = n2 ''triage_result''"
    and a1_fr: "a1 ''fix_result'' = n2 ''fix_result''"
    and a1_fR: "a1 ''fix_result'' = None \<Longrightarrow> a1 ''fixResult'' = None"
    and a1_lab: "a1 ''labels'' = updates ''labels''" "a1 ''annotations'' = updates ''annotations''"
    using n2_tR n2_fR by (auto simp: a1_def get_def n2_lab)
  have a2_tr: "a2 ''triage_result'' = n2 ''triage_result''"
    and a2_tR: "a2 ''triageResult'' = n2 ''triage_result''"
    and a2_fr: "a2 ''fix_result'' = n2 ''fix_result''"
    and a2_fR: "a2 ''fixResult'' = n2 ''fix_result''"
    and a2_lab: "a2 ''labels'' = updates ''labels''" "a2 ''annotations'' = updates ''annotations''"
    using a1_fR by (auto simp: a2_def get_def a1_tr a1_tR a1_fr a1_lab)
  have "get inc' ''triage_result'' =
          (if updates ''triage_result'' \<noteq> None then get updates ''triage_result''
           else if updates ''triageResult'' \<noteq> None then get updates ''triageResult''
           else get inc ''triage_result'')"
    by (cases "updates ''triage_result''"; cases "updates ''triageResult''") (simp_all add: look a2_tr n2_tr n1_tr, simp_all add: get_def split: option.splits)
  moreover have "get inc' ''triageResult'' =
          (if updates ''triage_result'' \<noteq> None then get updates ''triage_result''
           else if updates ''triageResult'' \<noteq> None then get updates ''triageResult''
           else get inc ''triageResult'')"
    by (cases "updates ''triage_result''"; cases "updates ''triageResult''") (simp_all add: look a2_tR n2_tr n1_tr, simp_all add: get_def split: option.splits)
  moreover have "get inc' ''fix_result'' =
          (if updates ''fix_result'' \<noteq> None then get updates ''fix_result''
           else if updates ''fixResult'' \<noteq> None then get updates ''fixResult''
           else get inc ''fix_result'')"
    by (cases "updates ''fix_result''"; cases "updates ''fixResult''") (simp_all add: look a2_fr n2_fr, simp_all add: get_def split: option.splits)
  moreover have "get inc' ''fixResult'' =
          (if updates ''fix_result'' \<noteq> None then get updates ''fix_result''
           else if updates ''fixResult'' \<noteq> None then get updates ''fixResult''
           else get inc ''fixResult'')"
    by (cases "updates ''fix_result''"; cases "updates ''fixResult''") (simp_all add: look a2_fR n2_fr, simp_all add: get_def split: option.splits)
  moreover have "get inc' ''labels'' =
          (if updates ''labels'' \<noteq> None then get updates ''labels'' else get inc ''labels'')"
    by (cases "updates ''labels''"; cases "updates ''annotations''") (simp_all add: look a2_lab, simp_all add: get_def split: option.splits)
  moreover have "get inc' ''annotations'' =
          (if updates ''annotations'' \<noteq> None then get updates ''annotations''
           else get inc ''annotations'')"
    by (cases "updates ''labels''"; cases "updates ''annotations''") (simp_all add: look a2_lab, simp_all add: get_def split: option.splits)
  ultimately show ?thesis using db by blast
qed

lemma IncidentManager_updateIncident_incidents:
  assumes "DatabaseService_updateIncident rt id' updates s = (Some inc', s')"
  shows "incidents (snd (IncidentManager_updateIncident rt id' updates s)) = incidents s'"
  by (simp add: IncidentManager_updateIncident_def assms Let_def new_Date_def
        incidents_addTimelineEvent)

lemma createIncident_stored:
  "\<exists>inc0. incidents (snd (IncidentManager_createIncident rt alert s))
             (Str (''inc-'' @ uuidv4 rt (uuid_reads s))) = Some inc0
     \<and> get inc0 ''labels'' = js_or (get alert ''labels'') (Obj Map.empty)
     \<and> get inc0 ''annotations'' = js_or (get alert ''annotations'') (Obj Map.empty)
     \<and> get inc0 ''triage_result'' = Undefined \<and> get inc0 ''triageResult'' = Undefined
     \<and> get inc0 ''fix_result'' = Undefined \<and> get inc0 ''fixResult'' = Undefined"
  by (simp add: IncidentManager_createIncident_def DatabaseService_createIncident_def
        addTimelineEvent_def addMemoryRelation_def new_Date_def new_uuid_def Let_def get_upd)
     (simp add: get_def)

lemma is_string_js_or_Obj: "\<not> is_string v \<Longrightarrow> \<not> is_string (js_or v (Obj m))"
  by (simp add: js_or_def)

lemma js_coalesce_same: "js_coalesce v v = v"
  by (simp add: js_coalesce_def)

lemma create_update_get:
  assumes labels: "\<not> is_string (get alert ''labels'')"
    and annotations: "\<not> is_string (get alert ''annotations'')"
    and untouched: "updates ''labels'' = None" "updates ''annotations'' = None"
    and attached: "\<not> is_string (get updates ''triageResult'')"
      "\<not> is_string (get updates ''triage_result'')"
      "\<not> is_string (get updates ''fixResult'')"
      "\<not> is_string (get updates ''fix_result'')"
    and id': "id' = ''inc-'' @ uuidv4 rt (uuid_reads s)"
    and sc: "sc = snd (IncidentManager_createIncident rt alert s)"
    and su: "su = snd (IncidentManager_updateIncident rt id' updates sc)"
  shows "(\<exists>r. fst (IncidentManager_getIncident rt id' sc) = Inr (Some r)
            \<and> get r ''labels'' = js_or (get alert ''labels'') (Obj Map.empty)
            \<and> get r ''annotations'' = js_or (get alert ''annotations'') (Obj Map.empty)
            \<and> get r ''triage_result'' = Undefined \<and> get r ''triageResult'' = Undefined
            \<and> get r ''fix_result'' = Undefined \<and> get r ''fixResult'' = Undefined)
       \<and> (\<exists>r. fst (IncidentManager_getIncident rt id' su) = Inr (Some r)
            \<and> get r ''labels'' = js_or (get alert ''labels'') (Obj Map.empty)
            \<and> get r ''annotations'' = js_or (get alert ''annotations'') (Obj Map.empty)
            \<and> get r ''triage_result'' =
                (if updates ''triage_result'' \<noteq> None then get updates ''triage_result''
                 else get updates ''triageResult'')
            \<and> get r ''triageResult'' = get r ''triage_result''
            \<and> get r ''fix_result'' =
                (if updates ''fix_result'' \<noteq> None then get updates ''fix_result''
                 else get updates ''fixResult'')
            \<and> get r ''fixResult'' = get r ''fix_result'')"
proof -
  from createIncident_stored [of rt alert s] obtain inc0 where
    st0: "incidents sc (Str id') = Some inc0"
    and l0: "get inc0 ''labels'' = js_or (get alert ''labels'') (Obj Map.empty)"
    and a0: "get inc0 ''annotations'' = js_or (get alert ''annotations'') (Obj Map.empty)"
    and t0: "get inc0 ''triage_result'' = Undefined" "get inc0 ''triageResult'' = Undefined"
    and f0: "get inc0 ''fix_result'' = Undefined" "get inc0 ''fixResult'' = Undefined"
    unfolding sc id' by blast
  have ns0: "\<not> is_string (get inc0 ''labels'')" "\<not> is_string (get inc0 ''annotations'')"
    "\<not> is_string (get inc0 ''triage_result'')" "\<not> is_string (get inc0 ''fix_result'')"
    using labels annotations by (simp_all add: l0 a0 t0 f0 is_string_js_or_Obj)
  from getIncident_found [OF st0 ns0, of rt]
  have A: "\<exists>r. fst (IncidentManager_getIncident rt id' sc) = Inr (Some r)
            \<and> get r ''labels'' = js_or (get alert ''labels'') (Obj Map.empty)
            \<and> get r ''annotations'' = js_or (get alert ''annotations'') (Obj Map.empty)
            \<and> get r ''triage_result'' = Undefined \<and> get r ''triageResult'' = Undefined
            \<and> get r ''fix_result'' = Undefined \<and> get r ''fixResult'' = Undefined"
    by (simp add: l0 a0 t0 f0 js_coalesce_same)
  define tv where "tv = (if updates ''triage_result'' \<noteq> None then get updates ''triage_result''
                 else get updates ''triageResult'')"
  define fv where "fv = (if updates ''fix_result'' \<noteq> None then get updates ''fix_result''
                 else get updates ''fixResult'')"
  have absent: "\<And>k. updates k = None \<Longrightarrow> get updates k = Undefined"
    by (simp add: get_def)
  from DatabaseService_updateIncident_fields [OF st0, of rt updates] obtain inc1 where
    db: "DatabaseService_updateIncident rt id' updates sc
            = (Some inc1, sc\<lparr>clock_reads := Suc (clock_reads sc),
                            incidents := (incidents sc)(Str id' \<mapsto> inc1)\<rparr>)"
    and t1: "get inc1 ''triage_result'' = tv" "get inc1 ''triageResult'' = tv"
    and f1: "get inc1 ''fix_result'' = fv" "get inc1 ''fixResult'' = fv"
    and l1: "get inc1 ''labels'' = get inc0 ''labels''"
    and a1: "get inc1 ''annotations'' = get inc0 ''annotations''"
    unfolding tv_def fv_def using untouched t0 f0 by (auto simp: absent)
  have st1: "incidents su (Str id') = Some inc1"
    unfolding su by (simp add: IncidentManager_updateIncident_incidents [OF db])
  have ns1: "\<not> is_string (get inc1 ''labels'')" "\<not> is_string (get inc1 ''annotations'')"
    "\<not> is_string (get inc1 ''triage_result'')" "\<not> is_string (get inc1 ''fix_result'')"
    using ns0 attached by (simp_all add: l1 a1 t1 f1 tv_def fv_def)
  from getIncident_found [OF st1 ns1, of rt]
  have B: "\<exists>r. fst (IncidentManager_getIncident rt id' su) = Inr (Some r)
            \<and> get r ''labels'' = js_or (get alert ''labels'') (Obj Map.empty)
            \<and> get r ''annotations'' = js_or (get alert ''annotations'') (Obj Map.empty)
            \<and> get r ''triage_result'' = tv
            \<and> get r ''triageResult'' = get r ''triage_result''
            \<and> get r ''fix_result'' = fv
            \<and> get r ''fixResult'' = get r ''fix_result''"
    by (auto simp: l1 a1 t1 f1 l0 a0 js_coalesce_same)
  from A B show ?thesis unfolding tv_def fv_def by blast
qed


lemma parse_json_fields_result:
  "distinct ks \<Longrightarrow>
   \<exists>inc'. parse_json_fields rt ks incident = (inc', first_parse_error rt (map (get incident) ks))
     \<and> (first_parse_error rt (map (get incident) ks) = None \<longrightarrow>
          (\<forall>k. get inc' k = (if k \<in> set ks then read_value rt (get incident k) else get incident k)))"
proof (induction ks arbitrary: incident)
  case Nil
  show ?case by simp
next
  case (Cons k ks)
  show ?case
  proof (cases "parse_error rt (get incident k)")
    case (Some e)
    then show ?thesis
      by (cases "get incident k") (auto simp: parse_error_def split: sum.splits)
  next
    case None
    let ?inc = "incident(k \<mapsto> read_value rt (get incident k))"
    from None have step: "parse_json_fields rt (k # ks) incident = parse_json_fields rt ks ?inc"
      by (cases "get incident k") (auto simp: parse_error_def read_value_def split: sum.splits)
    from Cons.prems have notin: "k \<notin> set ks" and d: "distinct ks" by simp_all
    have same: "\<And>k'. k' \<in> set ks \<Longrightarrow> get ?inc k' = get incident k'"
      using notin by (auto simp: get_upd)
    then have vs: "map (get ?inc) ks = map (get incident) ks" by simp
    from None have fe: "first_parse_error rt (map (get incident) (k # ks))
        = first_parse_error rt (map (get incident) ks)"
      by simp
    from Cons.IH [OF d, of ?inc] obtain inc' where
      r: "parse_json_fields rt ks ?inc = (inc', first_parse_error rt (map (get incident) ks))"
      and g: "first_parse_error rt (map (get incident) ks) = None \<longrightarrow>
          (\<forall>k'. get inc' k' = (if k' \<in> set ks then read_value rt (get ?inc k') else get ?inc k'))"
      unfolding vs by (elim exE conjE)
    have g': "first_parse_error rt (map (get incident) ks) = None \<longrightarrow>
        (\<forall>k'. get inc' k' =
          (if k' \<in> set (k # ks) then read_value rt (get incident k') else get incident k'))"
      using g same notin by (auto simp: get_upd)
    show ?thesis unfolding step fe by (rule exI [of _ inc'], rule conjI [OF r g'])
  qed
qed

lemma getIncident_read:
  assumes "incidents st (Str i) = Some inc"
  shows "case first_parse_error rt (map (get inc)
                [''labels'', ''annotations'', ''triage_result'', ''fix_result'']) of
           Some e \<Rightarrow> fst (IncidentManager_getIncident rt i st) = Inl e
         | None \<Rightarrow> \<exists>r. fst (IncidentManager_getIncident rt i st) = Inr (Some r)
            \<and> incidents (snd (IncidentManager_getIncident rt i st)) (Str i) = Some r
            \<and> get r ''labels'' = read_value rt (get inc ''labels'')
            \<and> get r ''annotations'' = read_value rt (get inc ''annotations'')
            \<and> get r ''triage_result'' =
                (if read_value rt (get inc ''triage_result'') = Undefined then get inc ''triageResult''
                 else read_value rt (get inc ''triage_result''))
            \<and> get r ''triageResult'' = js_coalesce (get r ''triage_result'') (get inc ''triageResult'')
            \<and> get r ''fix_result'' =
                (if read_value rt (get inc ''fix_result'') = Undefined then get inc ''fixResult''
                 else read_value rt (get inc ''fix_result''))
            \<and> get r ''fixResult'' = js_coalesce (get r ''fix_result'') (get inc ''fixResult'')"
proof -
  let ?ks = "[''labels'', ''annotations'', ''triage_result'', ''fix_result'']"
  have "distinct ?ks" by simp
  from parse_json_fields_result [OF this, of rt inc] obtain inc1 where
    p: "parse_json_fields rt ?ks inc = (inc1, first_parse_error rt (map (get inc) ?ks))"
    and g: "first_parse_error rt (map (get inc) ?ks) = None \<longrightarrow>
        (\<forall>k. get inc1 k = (if k \<in> set ?ks then read_value rt (get inc k) else get inc k))"
    by (elim exE conjE)
  show ?thesis
  proof (cases "first_parse_error rt (map (get inc) ?ks)")
    case (Some e)
    with p have "parse_json_fields rt ?ks inc = (inc1, Some e)" by simp
    then have "fst (IncidentManager_getIncident rt i st) = Inl e"
      unfolding IncidentManager_getIncident_def DatabaseService_getIncident_def
      by (simp add: assms del: parse_json_fields.simps)
    with Some show ?thesis by (simp del: first_parse_error.simps)
  next
    case None
    with p have p': "parse_json_fields rt ?ks inc = (inc1, None)" by simp
    have g1: "get inc1 ''labels'' = read_value rt (get inc ''labels'')"
      "get inc1 ''annotations'' = read_value rt (get inc ''annotations'')"
      "get inc1 ''triage_result'' = read_value rt (get inc ''triage_result'')"
      "get inc1 ''fix_result'' = read_value rt (get inc ''fix_result'')"
      "get inc1 ''triageResult'' = get inc ''triageResult''"
      "get inc1 ''fixResult'' = get inc ''fixResult''"
      using g None by simp_all
    have "\<exists>r. fst (IncidentManager_getIncident rt i st) = Inr (Some r)
            \<and> incidents (snd (IncidentManager_getIncident rt i st)) (Str i) = Some r
            \<and> get r ''labels'' = read_value rt (get inc ''labels'')
            \<and> get r ''annotations'' = read_value rt (get inc ''annotations'')
            \<and> get r ''triage_result'' =
                (if read_value rt (get inc ''triage_result'') = Undefined then get inc ''triageResult''
                 else read_value rt (get inc ''triage_result''))
            \<and> get r ''triageResult'' = js_coalesce (get r ''triage_result'') (get inc ''triageResult'')
            \<and> get r ''fix_result'' =
                (if read_value rt (get inc ''fix_result'') = Undefined then get inc ''fixResult''
                 else read_value rt (get inc ''fix_result''))
            \<and> get r ''fixResult'' = js_coalesce (get r ''fix_result'') (get inc ''fixResult'')"
      unfolding IncidentManager_getIncident_def DatabaseService_getIncident_def
      by (simp add: assms p' Let_def g1 get_upd del: parse_json_fields.simps)
    with None show ?thesis by (simp del: first_parse_error.simps)
  qed
qed


text \<open>
  Claim C9, as stated, fails for an incident whose stored labels are a string:
  \<^verbatim>\<open>getIncident\<close> hands every string it finds under \<^verbatim>\<open>labels\<close>, \<^verbatim>\<open>annotations\<close>,
  \<^verbatim>\<open>triage_result\<close> and \<^verbatim>\<open>fix_result\<close> to \<^verbatim>\<open>JSON.parse\<close>. The incident created from
  an alert with the labels \<^verbatim>\<open>"oops"\<close> is stored with these labels, and reading it
  throws the \<^verbatim>\<open>SyntaxError\<close> of \<^verbatim>\<open>JSON.parse\<close>; the one created with the labels
  \<^verbatim>\<open>"{}"\<close> is stored with that string and read with the empty object as its labels.
\<close>

theorem getIncident_parses_string_labels:
  "stored_field ''inc-uuid-0'' ''labels'' store_labels_oops = Some (Str ''oops'')
   \<and> fst (IncidentManager_getIncident test_runtime ''inc-uuid-0'' store_labels_oops)
       = Inl (Thrown ''SyntaxError'')
   \<and> stored_field ''inc-uuid-0'' ''labels'' store_labels_braces = Some (Str ''{}'')
   \<and> returned_field (fst (IncidentManager_getIncident test_runtime ''inc-uuid-0''
          store_labels_braces)) ''labels'' = Some (Obj Map.empty)"
  unfolding store_labels_oops_def store_labels_braces_def alert_labels_oops_def
    alert_labels_braces_def stored_field_def returned_field_def
  by (simp add: run_defs show_nat_digit digit_char_def IncidentManager_getIncident_def
        DatabaseService_getIncident_def js_coalesce_def)

text \<open>
  Claim C9, amended, on the in-memory store. For every stored incident,
  \<^verbatim>\<open>getIncident\<close> throws the error of \<^verbatim>\<open>JSON.parse\<close> for the first of \<^verbatim>\<open>labels\<close>,
  \<^verbatim>\<open>annotations\<close>, \<^verbatim>\<open>triage_result\<close>, \<^verbatim>\<open>fix_result\<close> that holds a string
  \<^verbatim>\<open>JSON.parse\<close> rejects; when there is none it returns the incident with each of the
  four as stored, a string replaced by the value \<^verbatim>\<open>JSON.parse\<close> gives for it, with
  \<^verbatim>\<open>triage_result\<close> taken from \<^verbatim>\<open>triageResult\<close> when it reads \<^verbatim>\<open>undefined\<close>, with
  \<^verbatim>\<open>triageResult\<close> set to \<^verbatim>\<open>triage_result ?? triageResult\<close>, likewise for the fix
  result, and the stored incident is the one returned. Hence the round trip, for an
  alert whose labels and annotations are not strings and a patch that leaves them alone
  and attaches values that are not strings: after \<^verbatim>\<open>createIncident\<close>, \<^verbatim>\<open>getIncident\<close>
  returns the labels and annotations the incident was created with, and both spellings
  of the triage and fix results read \<^verbatim>\<open>undefined\<close>; after an \<^verbatim>\<open>updateIncident\<close> on
  top, it returns the same labels and annotations, and \<^verbatim>\<open>triage_result\<close> and
  \<^verbatim>\<open>triageResult\<close> both hold the value the patch attached, under whichever spelling
  (the snake_case one when the patch has both); likewise \<^verbatim>\<open>fix_result\<close> and
  \<^verbatim>\<open>fixResult\<close>.
\<close>

theorem getIncident_round_trip:
  "(\<forall>st i inc. incidents st (Str i) = Some inc \<longrightarrow>
      (case first_parse_error rt (map (get inc)
               [''labels'', ''annotations'', ''triage_result'', ''fix_result'']) of
         Some e \<Rightarrow> fst (IncidentManager_getIncident rt i st) = Inl e
       | None \<Rightarrow> \<exists>r. fst (IncidentManager_getIncident rt i st) = Inr (Some r)
          \<and> incidents (snd (IncidentManager_getIncident rt i st)) (Str i) = Some r
          \<and> get r ''labels'' = read_value rt (get inc ''labels'')
          \<and> get r ''annotations'' = read_value rt (get inc ''annotations'')
          \<and> get r ''triage_result'' =
              (if read_value rt (get inc ''triage_result'') = Undefined
               then get inc ''triageResult''
               else read_value rt (get inc ''triage_result''))
          \<and> get r ''triageResult'' =
              js_coalesce (get r ''triage_result'') (get inc ''triageResult'')
          \<and> get r ''fix_result'' =
              (if read_value rt (get inc ''fix_result'') = Undefined
               then get inc ''fixResult''
               else read_value rt (get inc ''fix_result''))
          \<and> get r ''fixResult'' =
              js_coalesce (get r ''fix_result'') (get inc ''fixResult'')))
   \<and> (\<not> is_string (get alert ''labels'') \<and> \<not> is_string (get alert ''annotations'')
      \<and> updates ''labels'' = None \<and> updates ''annotations'' = None
      \<and> \<not> is_string (get updates ''triageResult'') \<and> \<not> is_string (get updates ''triage_result'')
      \<and> \<not> is_string (get updates ''fixResult'') \<and> \<not> is_string (get updates ''fix_result'')
      \<and> id' = ''inc-'' @ uuidv4 rt (uuid_reads s)
      \<and> sc = snd (IncidentManager_createIncident rt alert s)
      \<and> su = snd (IncidentManager_updateIncident rt id' updates sc)
      \<longrightarrow> (\<exists>r. fst (IncidentManager_getIncident rt id' sc) = Inr (Some r)
            \<and> get r ''labels'' = js_or (get alert ''labels'') (Obj Map.empty)
            \<and> get r ''annotations'' = js_or (get alert ''annotations'') (Obj Map.empty)
            \<and> get r ''triage_result'' = Undefined \<and> get r ''triageResult'' = Undefined
            \<and> get r ''fix_result'' = Undefined \<and> get r ''fixResult'' = Undefined)
       \<and> (\<exists>r. fst (IncidentManager_getIncident rt id' su) = Inr (Some r)
            \<and> get r ''labels'' = js_or (get alert ''labels'') (Obj Map.empty)
            \<and> get r ''annotations'' = js_or (get alert ''annotations'') (Obj Map.empty)
            \<and> get r ''triage_result'' =
                (if updates ''triage_result'' \<noteq> None then get updates ''triage_result''
                 else get updates ''triageResult'')
            \<and> get r ''triageResult'' = get r ''triage_result''
            \<and> get r ''fix_result'' =
                (if updates ''fix_result'' \<noteq> None then get updates ''fix_result''
                 else get updates ''fixResult'')
            \<and> get r ''fixResult'' = get r ''fix_result''))"
proof -
  have read: "(\<forall>st i inc. incidents st (Str i) = Some inc \<longrightarrow>
      (case first_parse_error rt (map (get inc)
               [''labels'', ''annotations'', ''triage_result'', ''fix_result'']) of
         Some e \<Rightarrow> fst (IncidentManager_getIncident rt i st) = Inl e
       | None \<Rightarrow> \<exists>r. fst (IncidentManager_getIncident rt i st) = Inr (Some r)
          \<and> incidents (snd (IncidentManager_getIncident rt i st)) (Str i) = Some r
          \<and> get r ''labels'' = read_value rt (get inc ''labels'')
          \<and> get r ''annotations'' = read_value rt (get inc ''annotations'')
          \<and> get r ''triage_result'' =
              (if read_value rt (get inc ''triage_result'') = Undefined
               then get inc ''triageResult''
               else read_value rt (get inc ''triage_result''))
          \<and> get r ''triageResult'' =
              js_coalesce (get r ''triage_result'') (get inc ''triageResult'')
          \<and> get r ''fix_result'' =
              (if read_value rt (get inc ''fix_result'') = Undefined
               then get inc ''fixResult''
               else read_value rt (get inc ''fix_result''))
          \<and> get r ''fixResult'' =
              js_coalesce (get r ''fix_result'') (get inc ''fixResult'')))"
    using getIncident_read [of _ _ _ rt] by blast
  have trip: "\<not> is_string (get alert ''labels'') \<and> \<not> is_string (get alert ''annotations'')
      \<and> updates ''labels'' = None \<and> updates ''annotations'' = None
      \<and> \<not> is_string (get updates ''triageResult'') \<and> \<not> is_string (get updates ''triage_result'')
      \<and> \<not> is_string (get updates ''fixResult'') \<and> \<not> is_string (get updates ''fix_result'')
      \<and> id' = ''inc-'' @ uuidv4 rt (uuid_reads s)
      \<and> sc = snd (IncidentManager_createIncident rt alert s)
      \<and> su = snd (IncidentManager_updateIncident rt id' updates sc)
      \<longrightarrow> (\<exists>r. fst (IncidentManager_getIncident rt id' sc) = Inr (Some r)
            \<and> get r ''labels'' = js_or (get alert ''labels'') (Obj Map.empty)
            \<and> get r ''annotations'' = js_or (get alert ''annotations'') (Obj Map.empty)
            \<and> get r ''triage_result'' = Undefined \<and> get r ''triageResult'' = Undefined
            \<and> get r ''fix_result'' = Undefined \<and> get r ''fixResult'' = Undefined)
       \<and> (\<exists>r. fst (IncidentManager_getIncident rt id' su) = Inr (Some r)
            \<and> get r ''labels'' = js_or (get alert ''labels'') (Obj Map.empty)
            \<and> get r ''annotations'' = js_or (get alert ''annotations'') (Obj Map.empty)
            \<and> get r ''triage_result'' =
                (if updates ''triage_result'' \<noteq> None then get updates ''triage_result''
                 else get updates ''triageResult'')
            \<and> get r ''triageResult'' = get r ''triage_result''
            \<and> get r ''fix_result'' =
                (if updates ''fix_result'' \<noteq> None then get updates ''fix_result''
                 else get updates ''fixResult'')
            \<and> get r ''fixResult'' = get r ''fix_result'')"
  proof (intro impI, elim conjE)
    assume labels: "\<not> is_string (get alert ''labels'')"
      and annotations: "\<not> is_string (get alert ''annotations'')"
      and untouched: "updates ''labels'' = None" "updates ''annotations'' = None"
      and attached: "\<not> is_string (get updates ''triageResult'')"
        "\<not> is_string (get updates ''triage_result'')"
        "\<not> is_string (get updates ''fixResult'')"
        "\<not> is_string (get updates ''fix_result'')"
      and id': "id' = ''inc-'' @ uuidv4 rt (uuid_reads s)"
      and sc: "sc = snd (IncidentManager_createIncident rt alert s)"
      and su: "su = snd (IncidentManager_updateIncident rt id' updates sc)"
    from create_update_get [OF labels annotations untouched attached id' sc su]
    show "(\<exists>r. fst (IncidentManager_getIncident rt id' sc) = Inr (Some r)
            \<and> get r ''labels'' = js_or (get alert ''labels'') (Obj Map.empty)
            \<and> get r ''annotations'' = js_or (get alert ''annotations'') (Obj Map.empty)
            \<and> get r ''triage_result'' = Undefined \<and> get r ''triageResult'' = Undefined
            \<and> get r ''fix_result'' = Undefined \<and> get r ''fixResult'' = Undefined)
       \<and> (\<exists>r. fst (IncidentManager_getIncident rt id' su) = Inr (Some r)
            \<and> get r ''labels'' = js_or (get alert ''labels'') (Obj Map.empty)
            \<and> get r ''annotations'' = js_or (get alert ''annotations'') (Obj Map.empty)
            \<and> get r ''triage_result'' =
                (if updates ''triage_result'' \<noteq> None then get updates ''triage_result''
                 else get updates ''triageResult'')
            \<and> get r ''triageResult'' = get r ''triage_result''
            \<and> get r ''fix_result'' =
                (if updates ''fix_result'' \<noteq> None then get updates ''fix_result''
                 else get updates ''fixResult'')
            \<and> get r ''fixResult'' = get r ''fix_result'')" .
  qed
  from read trip show ?thesis by (rule conjI)
qed

text \<open>
  The amended claim C9 at the scenario: the incident of the alert \<^verbatim>\<open>fp-1\<close>, updated
  with the patch of the orchestrator's listener (\<^verbatim>\<open>triageResult\<close> in camelCase, and a
  status), and the reading of the incident stored with the labels \<^verbatim>\<open>"{}"\<close>.
\<close>

theorem getIncident_round_trip_witness:
  "\<not> is_string (get alert_fp1 ''labels'') \<and> \<not> is_string (get alert_fp1 ''annotations'')
   \<and> (\<exists>r. fst (IncidentManager_getIncident test_runtime ''inc-uuid-0''
          (snd (IncidentManager_updateIncident test_runtime ''inc-uuid-0''
             [''triageResult'' \<mapsto> Obj [''alertId'' \<mapsto> Str ''fp-1''], ''status'' \<mapsto> Str ''triaged'']
             store_created))) = Inr (Some r)
        \<and> get r ''labels''
            = Obj [''alertname'' \<mapsto> Str ''HighMemoryUsage'', ''severity'' \<mapsto> Str ''critical'']
        \<and> get r ''triage_result'' = Obj [''alertId'' \<mapsto> Str ''fp-1'']
        \<and> get r ''triageResult'' = Obj [''alertId'' \<mapsto> Str ''fp-1''])
   \<and> incidents store_labels_braces (Str ''inc-uuid-0'') \<noteq> None
   \<and> (\<exists>r. fst (IncidentManager_getIncident test_runtime ''inc-uuid-0'' store_labels_braces)
          = Inr (Some r)
        \<and> get r ''labels'' = Obj Map.empty
        \<and> get r ''triage_result'' = Undefined \<and> get r ''triageResult'' = Undefined)"
proof -
  have h1: "\<not> is_string (get alert_fp1 ''labels'')" "\<not> is_string (get alert_fp1 ''annotations'')"
    by (simp_all add: alert_fp1_def get_def)
  have h2: "''inc-uuid-0'' = ''inc-'' @ uuidv4 test_runtime (uuid_reads empty_store)"
    by (simp add: test_runtime_def empty_store_def show_nat_digit digit_char_def)
  have lab: "js_or (get alert_fp1 ''labels'') (Obj Map.empty)
      = Obj [''alertname'' \<mapsto> Str ''HighMemoryUsage'', ''severity'' \<mapsto> Str ''critical'']"
    by (simp add: alert_fp1_def get_def js_or_def)
  let ?updates = "[''triageResult'' \<mapsto> Obj [''alertId'' \<mapsto> Str ''fp-1''], ''status'' \<mapsto> Str ''triaged'']"
  have u: "?updates ''labels'' = None" "?updates ''annotations'' = None" by simp_all
  have a: "\<not> is_string (get ?updates ''triageResult'')" "\<not> is_string (get ?updates ''triage_result'')"
    "\<not> is_string (get ?updates ''fixResult'')" "\<not> is_string (get ?updates ''fix_result'')"
    by (simp_all add: get_def)
  have tv: "(if ?updates ''triage_result'' \<noteq> None then get ?updates ''triage_result''
             else get ?updates ''triageResult'') = Obj [''alertId'' \<mapsto> Str ''fp-1'']"
    by (simp add: get_def)
  note both = getIncident_round_trip [where alert = alert_fp1 and rt = test_runtime
      and s = empty_store and id' = "''inc-uuid-0''" and sc = store_created
      and updates = ?updates
      and su = "snd (IncidentManager_updateIncident test_runtime ''inc-uuid-0'' ?updates store_created)"]
  from both h1 u a h2 store_created_def
  have th: "(\<exists>r. fst (IncidentManager_getIncident test_runtime ''inc-uuid-0'' store_created) = Inr (Some r)
        \<and> get r ''labels'' = js_or (get alert_fp1 ''labels'') (Obj Map.empty)
        \<and> get r ''annotations'' = js_or (get alert_fp1 ''annotations'') (Obj Map.empty)
        \<and> get r ''triage_result'' = Undefined \<and> get r ''triageResult'' = Undefined
        \<and> get r ''fix_result'' = Undefined \<and> get r ''fixResult'' = Undefined)
       \<and> (\<exists>r. fst (IncidentManager_getIncident test_runtime ''inc-uuid-0''
          (snd (IncidentManager_updateIncident test_runtime ''inc-uuid-0'' ?updates store_created))) = Inr (Some r)
        \<and> get r ''labels'' = js_or (get alert_fp1 ''labels'') (Obj Map.empty)
        \<and> get r ''annotations'' = js_or (get alert_fp1 ''annotations'') (Obj Map.empty)
        \<and> get r ''triage_result'' =
            (if ?updates ''triage_result'' \<noteq> None then get ?updates ''triage_result''
             else get ?updates ''triageResult'')
        \<and> get r ''triageResult'' = get r ''triage_result''
        \<and> get r ''fix_result'' =
            (if ?updates ''fix_result'' \<noteq> None then get ?updates ''fix_result''
             else get ?updates ''fixResult'')
        \<and> get r ''fixResult'' = get r ''fix_result'')"
    by blast
  from th have "\<exists>r. fst (IncidentManager_getIncident test_runtime ''inc-uuid-0''
          (snd (IncidentManager_updateIncident test_runtime ''inc-uuid-0'' ?updates
             store_created))) = Inr (Some r)
        \<and> get r ''labels'' = js_or (get alert_fp1 ''labels'') (Obj Map.empty)
        \<and> get r ''triage_result'' = (if ?updates ''triage_result'' \<noteq> None
              then get ?updates ''triage_result'' else get ?updates ''triageResult'')
        \<and> get r ''triageResult'' = get r ''triage_result''"
    by blast
  then have first: "\<exists>r. fst (IncidentManager_getIncident test_runtime ''inc-uuid-0''
          (snd (IncidentManager_updateIncident test_runtime ''inc-uuid-0'' ?updates
             store_created))) = Inr (Some r)
        \<and> get r ''labels''
            = Obj [''alertname'' \<mapsto> Str ''HighMemoryUsage'', ''severity'' \<mapsto> Str ''critical'']
        \<and> get r ''triage_result'' = Obj [''alertId'' \<mapsto> Str ''fp-1'']
        \<and> get r ''triageResult'' = Obj [''alertId'' \<mapsto> Str ''fp-1'']"
    unfolding lab tv by auto
  from createIncident_stored [of test_runtime alert_labels_braces empty_store]
  obtain inc0 where st: "incidents store_labels_braces (Str ''inc-uuid-0'') = Some inc0"
    and l0: "get inc0 ''labels'' = Str ''{}''"
    and a0: "get inc0 ''annotations'' = Obj Map.empty"
    and t0: "get inc0 ''triage_result'' = Undefined" "get inc0 ''triageResult'' = Undefined"
    and f0: "get inc0 ''fix_result'' = Undefined" "get inc0 ''fixResult'' = Undefined"
    unfolding store_labels_braces_def h2 [symmetric]
    by (auto simp: alert_labels_braces_def get_def js_or_def)
  from both have "\<forall>st i inc. incidents st (Str i) = Some inc \<longrightarrow>
            (case first_parse_error test_runtime (map (get inc)
                     [''labels'', ''annotations'', ''triage_result'', ''fix_result'']) of
               Some e \<Rightarrow> fst (IncidentManager_getIncident test_runtime i st) = Inl e
             | None \<Rightarrow> \<exists>r. fst (IncidentManager_getIncident test_runtime i st) = Inr (Some r)
                \<and> incidents (snd (IncidentManager_getIncident test_runtime i st)) (Str i) = Some r
                \<and> get r ''labels'' = read_value test_runtime (get inc ''labels'')
                \<and> get r ''annotations'' = read_value test_runtime (get inc ''annotations'')
                \<and> get r ''triage_result'' =
                    (if read_value test_runtime (get inc ''triage_result'') = Undefined
                     then get inc ''triageResult''
                     else read_value test_runtime (get inc ''triage_result''))
                \<and> get r ''triageResult'' =
                    js_coalesce (get r ''triage_result'') (get inc ''triageResult'')
                \<and> get r ''fix_result'' =
                    (if read_value test_runtime (get inc ''fix_result'') = Undefined
                     then get inc ''fixResult''
                     else read_value test_runtime (get inc ''fix_result''))
                \<and> get r ''fixResult'' =
                    js_coalesce (get r ''fix_result'') (get inc ''fixResult''))"
    by blast
  from this [rule_format, OF st]
  have second: "\<exists>r. fst (IncidentManager_getIncident test_runtime ''inc-uuid-0'' store_labels_braces)
          = Inr (Some r)
        \<and> get r ''labels'' = Obj Map.empty
        \<and> get r ''triage_result'' = Undefined \<and> get r ''triageResult'' = Undefined"
    by (auto simp: l0 a0 t0 f0 parse_error_def read_value_def test_runtime_def js_coalesce_def)
  from first second h1 st show ?thesis by simp
qed

section \<open>Properties of the remediation\<close>

lemma generatePatch_names_patch:
  "generatePatch (Some fix) = Inr fs \<Longrightarrow> (fs \<noteq> [] \<longleftrightarrow> names_patch fix)"
  by (auto simp: generatePatch_def names_patch_def split: if_splits)

lemma apply_action_returns:
  assumes "expected_return env step"
  shows "\<exists>results'. apply_action env tr step results = Inr results'
     \<and> appliedFixes results' = appliedFixes results @ expected_outcomes env tr step
     \<and> pullRequest results' =
         (case expected_pull_request env tr step of None \<Rightarrow> pullRequest results | Some pr \<Rightarrow> Some pr)
     \<and> fr_alertId results' = fr_alertId results
     \<and> success results' = success results
     \<and> verificationStatus results' = verificationStatus results"
proof (cases "action_type (snd step) = ''apply_fix''")
  case True
  with assms show ?thesis
    by (auto simp: expected_return_def expected_outcomes_def expected_pull_request_def
          apply_action_def Let_def generatePatch_def names_patch_def createPullRequest_def
          split: option.splits sum.splits if_splits)
next
  case False
  then show ?thesis
    by (cases "jira env (fst step)")
       (simp_all add: expected_outcomes_def expected_pull_request_def apply_action_def Let_def
          createJiraTicket_def get_def)
qed

lemma apply_action_throws:
  assumes "\<not> expected_return env step"
  shows "\<exists>e. apply_action env tr step results = Inl e"
  using assms
  by (auto simp: expected_return_def apply_action_def Let_def generatePatch_def names_patch_def
        createPullRequest_def split: option.splits sum.splits if_splits)

lemma apply_actions_prefix:
  "\<exists>results' err. apply_actions env tr todo results = (results', err)
     \<and> appliedFixes results' =
         appliedFixes results @ concat (map (expected_outcomes env tr) (takeWhile (expected_return env) todo))
     \<and> pullRequest results' =
         (case last_created (map (expected_pull_request env tr) (takeWhile (expected_return env) todo)) of
            None \<Rightarrow> pullRequest results | Some pr \<Rightarrow> Some pr)
     \<and> (err = None \<longleftrightarrow> list_all (expected_return env) todo)
     \<and> fr_alertId results' = fr_alertId results
     \<and> success results' = success results
     \<and> verificationStatus results' = verificationStatus results"
proof (induction todo arbitrary: results)
  case Nil
  show ?case by simp
next
  case (Cons step rest)
  show ?case
  proof (cases "expected_return env step")
    case True
    from apply_action_returns [OF True, of tr results] obtain r1 where
      r1: "apply_action env tr step results = Inr r1"
      and f1: "appliedFixes r1 = appliedFixes results @ expected_outcomes env tr step"
      and p1: "pullRequest r1 =
         (case expected_pull_request env tr step of None \<Rightarrow> pullRequest results | Some pr \<Rightarrow> Some pr)"
      and i1: "fr_alertId r1 = fr_alertId results"
      and s1: "success r1 = success results"
      and v1: "verificationStatus r1 = verificationStatus results" by blast
    from Cons.IH [of r1] obtain r2 err where
      "apply_actions env tr rest r1 = (r2, err)"
      "appliedFixes r2 = appliedFixes r1 @
         concat (map (expected_outcomes env tr) (takeWhile (expected_return env) rest))"
      "pullRequest r2 =
         (case last_created (map (expected_pull_request env tr) (takeWhile (expected_return env) rest)) of
            None \<Rightarrow> pullRequest r1 | Some pr \<Rightarrow> Some pr)"
      "err = None \<longleftrightarrow> list_all (expected_return env) rest"
      "fr_alertId r2 = fr_alertId r1"
      "success r2 = success r1" "verificationStatus r2 = verificationStatus r1"
      by blast
    with True r1 f1 p1 i1 s1 v1 show ?thesis by (simp split: option.splits)
  next
    case False
    from apply_action_throws [OF False, of tr results] obtain e where
      "apply_action env tr step results = Inl e" by blast
    with False show ?thesis by simp
  qed
qed

text \<open>
  Claim C6, amended: \<^verbatim>\<open>applyFix\<close> handles the approved suggested actions in the order
  of the suggestions, up to the first one whose handling throws, and \<^verbatim>\<open>appliedFixes\<close>
  holds the outcomes of those handled before it, in order. Only an apply-fix action can
  throw: when it has no description, and when its description names a patch and the
  creation of the pull request fails. An apply-fix action that returns appends a
  \<^verbatim>\<open>pull_request\<close> outcome with the address of the pull request it created, which the
  result keeps as its pull request, or nothing when its description names no patch; a
  rollback, a restart and a scale-out append one outcome each; a ticket creation
  appends one \<^verbatim>\<open>jira_ticket\<close> outcome whatever Jira answers, with the status
  \<^verbatim>\<open>created\<close>, \<^verbatim>\<open>skipped\<close> or \<^verbatim>\<open>failed\<close>; an action of another type appends nothing.
  When an action throws, the batch ends there, \<^verbatim>\<open>success\<close> is false and
  \<^verbatim>\<open>verificationStatus\<close> stays \<^verbatim>\<open>pending\<close>; so they are when no outcome was recorded.
  Otherwise the fix is verified: \<^verbatim>\<open>verificationStatus\<close> is the status \<^verbatim>\<open>verifyFix\<close>
  reports and \<^verbatim>\<open>success\<close> tells whether it is \<^verbatim>\<open>resolved\<close>.
\<close>

theorem applyFix_until_first_throw:
  "map snd (actionsToApply tr approved)
     = filter (\<lambda>action. action_type action \<in> set approved) (suggestedActions tr)
   \<and> map fst (actionsToApply tr approved) = [0..<length (actionsToApply tr approved)]
   \<and> appliedFixes (applyFix env tr approved) =
       concat (map (expected_outcomes env tr)
                 (takeWhile (expected_return env) (actionsToApply tr approved)))
   \<and> pullRequest (applyFix env tr approved) =
       last_created (map (expected_pull_request env tr)
                 (takeWhile (expected_return env) (actionsToApply tr approved)))
   \<and> fr_alertId (applyFix env tr approved) = alertId tr
   \<and> verificationStatus (applyFix env tr approved) =
       (if list_all (expected_return env) (actionsToApply tr approved)
           \<and> appliedFixes (applyFix env tr approved) \<noteq> []
        then verifyFix env (alertId tr) else ''pending'')
   \<and> success (applyFix env tr approved) =
       (list_all (expected_return env) (actionsToApply tr approved)
        \<and> appliedFixes (applyFix env tr approved) \<noteq> []
        \<and> verifyFix env (alertId tr) = ''resolved'')"
proof -
  let ?init = "\<lparr>fr_alertId = alertId tr, appliedFixes = [], pullRequest = None,
                 success = False, verificationStatus = ''pending''\<rparr>"
  let ?todo = "actionsToApply tr approved"
  from apply_actions_prefix [of env tr ?todo ?init] obtain r err where
    run: "apply_actions env tr ?todo ?init = (r, err)"
    and apps: "appliedFixes r =
         concat (map (expected_outcomes env tr) (takeWhile (expected_return env) ?todo))"
    and pr: "pullRequest r =
         last_created (map (expected_pull_request env tr) (takeWhile (expected_return env) ?todo))"
    and err: "err = None \<longleftrightarrow> list_all (expected_return env) ?todo"
    and keep: "fr_alertId r = alertId tr" "success r = False" "verificationStatus r = ''pending''"
    by (auto split: option.splits)
  have a: "appliedFixes (applyFix env tr approved) =
     concat (map (expected_outcomes env tr) (takeWhile (expected_return env) ?todo))"
    using apps by (cases err) (simp_all add: applyFix_def run Let_def)
  have p: "pullRequest (applyFix env tr approved) =
     last_created (map (expected_pull_request env tr) (takeWhile (expected_return env) ?todo))"
    using pr by (cases err) (simp_all add: applyFix_def run Let_def)
  have i: "fr_alertId (applyFix env tr approved) = alertId tr"
    using keep by (cases err) (simp_all add: applyFix_def run Let_def)
  have v: "verificationStatus (applyFix env tr approved) =
       (if list_all (expected_return env) ?todo \<and> appliedFixes (applyFix env tr approved) \<noteq> []
        then verifyFix env (alertId tr) else ''pending'')"
    using err keep by (cases err) (simp_all add: applyFix_def run Let_def)
  have s: "success (applyFix env tr approved) =
       (list_all (expected_return env) ?todo \<and> appliedFixes (applyFix env tr approved) \<noteq> []
        \<and> verifyFix env (alertId tr) = ''resolved'')"
    using err keep by (cases err) (simp_all add: applyFix_def run Let_def)
  have m: "map snd ?todo
     = filter (\<lambda>action. action_type action \<in> set approved) (suggestedActions tr)"
    by (simp add: actionsToApply_def Let_def)
  have n: "map fst ?todo = [0..<length ?todo]"
    by (simp add: actionsToApply_def Let_def)
  from m n a p i v s show ?thesis by (intro conjI)
qed

lemmas fix_run_defs = applyFix_def actionsToApply_def applied_types_def apply_action_def generatePatch_def
  createPullRequest_def createJiraTicket_def verifyFix_def triage_fp1_def hypothesis_fp1_def
  rb_001_def github_refuses_def generateSuggestedActions_def toLowerCase_def lower_char_def
  get_def js_or_def Let_def

text \<open>
  Claim C6, as stated, fails when the creation of the pull request throws. With the
  ticket and the fix approved, in the order the triage derives them, the ticket is the
  only outcome recorded, the failed fix leaves none and the result is not verified; with
  the fix in front of the ticket, the ticket is never created and nothing is recorded.
\<close>

theorem applyFix_aborted_by_pull_request:
  "map (action_type \<circ> snd) (actionsToApply triage_fp1 [''create_ticket'', ''apply_fix''])
     = [''create_ticket'', ''apply_fix'']
   \<and> applied_types (applyFix github_refuses triage_fp1 [''create_ticket'', ''apply_fix''])
     = [Str ''jira_ticket'']
   \<and> verificationStatus (applyFix github_refuses triage_fp1 [''create_ticket'', ''apply_fix''])
     = ''pending''
   \<and> map (action_type \<circ> snd)
         (actionsToApply (triage_fp1\<lparr>suggestedActions := rev (suggestedActions triage_fp1)\<rparr>)
            [''create_ticket'', ''apply_fix''])
     = [''apply_fix'', ''create_ticket'']
   \<and> appliedFixes (applyFix github_refuses
         (triage_fp1\<lparr>suggestedActions := rev (suggestedActions triage_fp1)\<rparr>)
         [''create_ticket'', ''apply_fix'']) = []"
  by (simp add: fix_run_defs)

text \<open>
  The amended claim C6 at the same run: the second action, the fix, throws; the first
  one, the ticket creation, returned and appended its outcome, the ticket \<^verbatim>\<open>OPS-1\<close>.
\<close>

theorem applyFix_until_first_throw_witness:
  "\<not> list_all (expected_return github_refuses)
        (actionsToApply triage_fp1 [''create_ticket'', ''apply_fix''])
   \<and> \<not> success (applyFix github_refuses triage_fp1 [''create_ticket'', ''apply_fix''])
   \<and> verificationStatus (applyFix github_refuses triage_fp1 [''create_ticket'', ''apply_fix''])
       = ''pending''
   \<and> appliedFixes (applyFix github_refuses triage_fp1 [''create_ticket'', ''apply_fix''])
       = [[''type'' \<mapsto> Str ''jira_ticket'', ''ticket'' \<mapsto> Str ''OPS-1'',
           ''url'' \<mapsto> Str ''https://example.atlassian.net/browse/OPS-1'',
           ''status'' \<mapsto> Str ''created'']]"
proof -
  have todo: "actionsToApply triage_fp1 [''create_ticket'', ''apply_fix'']
      = [(0, \<lparr>action_type = ''create_ticket'',
               description = Some ''Create Jira ticket for tracking'',
               automated = True, runbookId = None\<rparr>),
         (1, \<lparr>action_type = ''apply_fix'',
               description = Some ''Identify memory-intensive processes'',
               automated = True, runbookId = None\<rparr>)]"
    by (simp add: fix_run_defs upt_rec)
  have np: "names_patch ''Identify memory-intensive processes''"
    by (simp add: names_patch_def toLowerCase_def lower_char_def)
  have a: "\<not> list_all (expected_return github_refuses)
        (actionsToApply triage_fp1 [''create_ticket'', ''apply_fix''])"
    unfolding todo by (simp add: expected_return_def np github_refuses_def)
  have b: "concat (map (expected_outcomes github_refuses triage_fp1)
             (takeWhile (expected_return github_refuses)
                (actionsToApply triage_fp1 [''create_ticket'', ''apply_fix''])))
       = [[''type'' \<mapsto> Str ''jira_ticket'', ''ticket'' \<mapsto> Str ''OPS-1'',
           ''url'' \<mapsto> Str ''https://example.atlassian.net/browse/OPS-1'',
           ''status'' \<mapsto> Str ''created'']]"
    unfolding todo
    by (simp add: expected_return_def expected_outcomes_def np github_refuses_def)
  from applyFix_until_first_throw [of triage_fp1 "[''create_ticket'', ''apply_fix'']" github_refuses]
    a b
  show ?thesis by simp
qed

section \<open>Properties of the alert ingestion\<close>

lemma injectAlert_suppressed:
  "get alert ''fingerprint'' \<in> processedAlerts w \<Longrightarrow> injectAlert alert w = (None, w)"
  by (simp add: injectAlert_def)

lemma injectAlert_processed:
  "get alert ''fingerprint'' \<in> processedAlerts (snd (injectAlert alert w))"
  by (simp add: injectAlert_def Let_def split: sum.splits)

lemma injectAlert_twice:
  assumes "get a ''fingerprint'' = get b ''fingerprint''"
  shows "injectAlert b (snd (injectAlert a w)) = (None, snd (injectAlert a w))"
  using injectAlert_processed [of a w] assms by (simp add: injectAlert_suppressed)

lemma poll_alert_suppressed:
  assumes "generateFingerprint alert = Inr fp" and "Str fp \<in> processedAlerts w"
  shows "poll_alert alert w = Inr w"
  using assms
  by (cases alert) (auto simp: poll_alert_def generateFingerprint_def split: sum.splits)

lemma poll_alert_processed:
  assumes "poll_alert alert w = Inr w'" and "js_prop alert ''state'' = Inr (Str ''firing'')"
    and "generateFingerprint alert = Inr fp"
  shows "Str fp \<in> processedAlerts w'"
  using assms by (auto simp: poll_alert_def split: if_splits)

lemma poll_cycle_repeated:
  assumes "js_prop alert ''state'' = Inr (Str ''firing'')"
    and "generateFingerprint alert = Inr fp"
    and "generateFingerprint alert' = Inr fp"
  shows "poll_cycle (Inr [alert']) (poll_cycle (Inr [alert]) w) = poll_cycle (Inr [alert]) w"
proof -
  have "\<exists>w'. poll_alert alert w = Inr w'"
    using assms(1,2) by (simp add: poll_alert_def Let_def)
  then obtain w' where w': "poll_alert alert w = Inr w'" ..
  from poll_alert_processed [OF w' assms(1,2)] have "Str fp \<in> processedAlerts w'" .
  from poll_alert_suppressed [OF assms(3) this] w' show ?thesis
    by (simp add: poll_cycle_def)
qed

text \<open>An alert that is a string: the incident is created from no property at all, and
  the event keeps the string.\<close>

lemma on_alert_string:
  "map event_type (timeline (on_alert test_runtime (Str ''down'') empty_store)) = [''incident_created'']
   \<and> map event_data (timeline (on_alert test_runtime (Str ''down'') empty_store))
       = [Obj [''alert'' \<mapsto> Str ''down'', ''source'' \<mapsto> Str ''prometheus'']]
   \<and> map related_id (relations (on_alert test_runtime (Str ''down'') empty_store)) = [Undefined]"
  by (simp add: on_alert_def run_defs get_def)

text \<open>
  Claim C1 (one incident per fingerprint, on the push path as on the pull path). The
  set of processed fingerprints suppresses a repeated alert in \<^verbatim>\<open>injectAlert\<close> and in
  the poll cycle (lemmas above). The webhook handler does not go through it: a body that
  holds the alert \<^verbatim>\<open>fp-1\<close> twice is answered with "received", both alerts are
  emitted, and the listener creates the incidents \<^verbatim>\<open>inc-uuid-0\<close> and \<^verbatim>\<open>inc-uuid-1\<close>,
  both triggered by \<^verbatim>\<open>fp-1\<close>; two calls of \<^verbatim>\<open>injectAlert\<close> with that alert emit it
  once.
\<close>

theorem webhook_prometheus_no_dedup:
  "webhook_prometheus (Inr (Obj [''alerts'' \<mapsto> Arr [Obj alert_fp1, Obj alert_fp1]])) no_alerts
     = (Received, \<lparr>processedAlerts = {}, emitted = [Obj alert_fp1, Obj alert_fp1]\<rparr>)
   \<and> event_types (deliver test_runtime [Obj alert_fp1, Obj alert_fp1] empty_store)
     = [''incident_created'', ''incident_created'']
   \<and> map entity_id (relations (deliver test_runtime [Obj alert_fp1, Obj alert_fp1] empty_store))
     = [''inc-uuid-0'', ''inc-uuid-1'']
   \<and> map related_id (relations (deliver test_runtime [Obj alert_fp1, Obj alert_fp1] empty_store))
     = [Str ''fp-1'', Str ''fp-1'']
   \<and> emitted (snd (injectAlert alert_fp1 (snd (injectAlert alert_fp1 no_alerts))))
     = [Obj alert_fp1]"
proof -
  have "webhook_prometheus (Inr (Obj [''alerts'' \<mapsto> Arr [Obj alert_fp1, Obj alert_fp1]])) no_alerts
     = (Received, \<lparr>processedAlerts = {}, emitted = [Obj alert_fp1, Obj alert_fp1]\<rparr>)"
    by (simp add: webhook_prometheus_def no_alerts_def get_def js_or_def)
  moreover have "emitted (snd (injectAlert alert_fp1 (snd (injectAlert alert_fp1 no_alerts))))
     = [Obj alert_fp1]"
    by (simp add: injectAlert_twice) (simp add: injectAlert_def no_alerts_def alert_fp1_def get_def)
  moreover have "event_types (deliver test_runtime [Obj alert_fp1, Obj alert_fp1] empty_store)
     = [''incident_created'', ''incident_created'']"
    unfolding alert_fp1_def event_types_def by (simp add: deliver_def on_alert_def run_defs)
  moreover have "map entity_id (relations (deliver test_runtime [Obj alert_fp1, Obj alert_fp1] empty_store))
     = [''inc-uuid-0'', ''inc-uuid-1'']"
    unfolding alert_fp1_def by (simp add: deliver_def on_alert_def run_defs show_nat_digit digit_char_def)
  moreover have "map related_id (relations (deliver test_runtime [Obj alert_fp1, Obj alert_fp1] empty_store))
     = [Str ''fp-1'', Str ''fp-1'']"
    unfolding alert_fp1_def by (simp add: deliver_def on_alert_def run_defs)
  ultimately show ?thesis by simp
qed

end
